theory Spec2Isabelle
  imports Complex_Main "HOL-Library.AList" "HOL-Library.Sublist"
begin

section \<open>Python values\<close>

text \<open>
  The values that \<^verbatim>\<open>request.get_json()\<close> hands to the server, and that the methods
  read and store. A Python float is a finite value, a signed zero, an infinity or a NaN; the
  finite values are over-approximated by the rationals (only comparisons are made on
  them here, never arithmetic). A Python dict is an association list in insertion
  order, read with \<^const>\<open>map_of\<close>.
\<close>

datatype pyfloat = Finite rat | NegZero | PosInf | NegInf | NaN

datatype json =
    JNull
  | JBool bool
  | JInt int
  | JFloat pyfloat
  | JStr string
  | JArr "json list"
  | JObj "(string \<times> json) list"

type_synonym pydict = "(string \<times> json) list"

text \<open>
  Exceptions, by what the \<^verbatim>\<open>except\<close> clauses of the server tell apart: an instance of
  \<^verbatim>\<open>TypeError\<close>, an instance of \<^verbatim>\<open>ValueError\<close>, and any other instance of
  \<^verbatim>\<open>Exception\<close> (\<^verbatim>\<open>KeyError\<close>, \<^verbatim>\<open>OverflowError\<close>, a plain \<^verbatim>\<open>Exception\<close>). The
  argument is the text of \<^verbatim>\<open>str(e)\<close>.
\<close>

datatype exception = TypeError string | ValueError string | Exception string

fun str_exc :: "exception \<Rightarrow> string" where
  "str_exc (TypeError m) = m"
| "str_exc (ValueError m) = m"
| "str_exc (Exception m) = m"

definition quote :: string where
  "quote = [CHR 0x27]"

subsection \<open>Truth value, equality, isinstance\<close>

fun truthy :: "json \<Rightarrow> bool" where
  "truthy JNull = False"
| "truthy (JBool b) = b"
| "truthy (JInt i) = (i \<noteq> 0)"
| "truthy (JFloat f) = (f \<noteq> Finite 0 \<and> f \<noteq> NegZero)"
| "truthy (JStr s) = (s \<noteq> [])"
| "truthy (JArr xs) = (xs \<noteq> [])"
| "truthy (JObj d) = (d \<noteq> [])"

fun num_of :: "json \<Rightarrow> pyfloat option" where
  "num_of (JBool b) = Some (Finite (if b then 1 else 0))"
| "num_of (JInt i) = Some (Finite (of_int i))"
| "num_of (JFloat NegZero) = Some (Finite 0)"
| "num_of (JFloat f) = Some f"
| "num_of _ = None"

text \<open>
  Python's \<^verbatim>\<open>==\<close> on decoded JSON: numbers compare by value across bool, int and
  float (NaN equals nothing), strings and None by identity of content, lists
  elementwise, dicts by equal length and equal values under each key.
\<close>

fun py_eq :: "json \<Rightarrow> json \<Rightarrow> bool"
  and py_eq_list :: "json list \<Rightarrow> json list \<Rightarrow> bool"
  and py_eq_items :: "pydict \<Rightarrow> pydict \<Rightarrow> bool" where
  "py_eq JNull b = (b = JNull)"
| "py_eq (JStr s) b = (b = JStr s)"
| "py_eq (JArr xs) b = (case b of JArr ys \<Rightarrow> py_eq_list xs ys | _ \<Rightarrow> False)"
| "py_eq (JObj xs) b =
     (case b of JObj ys \<Rightarrow> length xs = length ys \<and> py_eq_items xs ys | _ \<Rightarrow> False)"
| "py_eq a b =
     (case (num_of a, num_of b) of
        (Some x, Some y) \<Rightarrow> x = y \<and> x \<noteq> NaN
      | _ \<Rightarrow> False)"
| "py_eq_list [] ys = (ys = [])"
| "py_eq_list (x # xs) ys =
     (case ys of [] \<Rightarrow> False | y # ys' \<Rightarrow> py_eq x y \<and> py_eq_list xs ys')"
| "py_eq_items [] ys = True"
| "py_eq_items ((k, v) # xs) ys =
     ((case map_of ys k of None \<Rightarrow> False | Some w \<Rightarrow> py_eq v w) \<and> py_eq_items xs ys)"

fun is_dict :: "json \<Rightarrow> bool" where
  "is_dict (JObj d) = True"
| "is_dict _ = False"

fun is_list :: "json \<Rightarrow> bool" where
  "is_list (JArr xs) = True"
| "is_list _ = False"

fun is_str :: "json \<Rightarrow> bool" where
  "is_str (JStr s) = True"
| "is_str _ = False"

fun the_dict :: "json \<Rightarrow> pydict" where
  "the_dict (JObj d) = d"
| "the_dict _ = []"

fun the_list :: "json \<Rightarrow> json list" where
  "the_list (JArr xs) = xs"
| "the_list _ = []"

fun the_str :: "json \<Rightarrow> string" where
  "the_str (JStr s) = s"
| "the_str _ = []"

subsection \<open>Dictionaries\<close>

definition dict_has :: "pydict \<Rightarrow> string \<Rightarrow> bool" where
  "dict_has d k = (map_of d k \<noteq> None)"

text \<open>\<^verbatim>\<open>d.get(k)\<close> and \<^verbatim>\<open>d.get(k, default)\<close>.\<close>

definition dict_get_default :: "pydict \<Rightarrow> string \<Rightarrow> json \<Rightarrow> json" where
  "dict_get_default d k dflt = (case map_of d k of None \<Rightarrow> dflt | Some v \<Rightarrow> v)"

definition dict_get :: "pydict \<Rightarrow> string \<Rightarrow> json" where
  "dict_get d k = dict_get_default d k JNull"

subsection \<open>Strings\<close>

fun digits :: "nat \<Rightarrow> string" where
  "digits n =
     (if n < 10 then [char_of (48 + n)]
      else digits (n div 10) @ [char_of (48 + n mod 10)])"

declare digits.simps [simp del]

definition str_int :: "int \<Rightarrow> string" where
  "str_int i = (if i < 0 then CHR ''-'' # digits (nat (- i)) else digits (nat i))"

text \<open>
  \<^verbatim>\<open>str.lower()\<close>: on ASCII letters; every other byte is kept (no character outside
  ASCII lowers to a letter of the text searched for below).
\<close>

definition lower_char :: "char \<Rightarrow> char" where
  "lower_char c =
     (if (65::nat) \<le> of_char c \<and> of_char c \<le> (90::nat)
      then char_of (of_char c + (32::nat)) else c)"

definition lower :: "string \<Rightarrow> string" where
  "lower s = map lower_char s"

text \<open>\<^verbatim>\<open>sub in s\<close> on strings.\<close>

fun str_contains :: "string \<Rightarrow> string \<Rightarrow> bool" where
  "str_contains sub [] = (sub = [])"
| "str_contains sub (c # cs) = (prefix sub (c # cs) \<or> str_contains sub cs)"

section \<open>Values that are not decoded JSON\<close>

text \<open>
  What a method returns, and what a response holds until \<^verbatim>\<open>jsonify\<close> reads it. The
  methods of \<^verbatim>\<open>UserService\<close> return the dict that is stored in \<^verbatim>\<open>self.users\<close>, not a
  copy: \<open>Stored k\<close> is that dict, named by its key, and its content is the content
  at the moment it is serialised. \<open>NonJson t\<close> is an object of a type \<open>t\<close> that
  \<^verbatim>\<open>jsonify\<close> rejects, such as the \<^verbatim>\<open>complex\<close> that \<^verbatim>\<open>**\<close> gives for a negative base and
  a fractional exponent. \<open>Plain\<close> is a value built of decoded JSON only; \<open>PList\<close>
  and \<open>PDict\<close> are a list and a dict built by the code around such values.
\<close>

datatype pyval =
    Plain json
  | Stored int
  | NonJson string
  | PList "pyval list"
  | PDict "(string \<times> pyval) list"

section \<open>What the interpreter and the clock supply\<close>

text \<open>
  One \<open>runtime\<close> stands for everything a single request reads that the repository's
  code does not fix: the successive values of \<^verbatim>\<open>datetime.now().isoformat()\<close>, the text
  Python gives a float, a list or a dict in an f-string, the text of the
  \<^verbatim>\<open>TypeError\<close> raised when the arguments do not fit a signature, and the methods of
  \<^verbatim>\<open>TaxService\<close> and \<^verbatim>\<open>CalculationService\<close>, which compute on floats and draw UUIDs.
  These two services keep no state; each of their methods is an arbitrary function
  from the positional and keyword arguments to a result or an exception, and the
  result need not be JSON.
\<close>

record runtime =
  now_isoformat :: "nat \<Rightarrow> string"
  repr_value :: "json \<Rightarrow> string"
  binding_error :: "string \<Rightarrow> json list \<Rightarrow> pydict \<Rightarrow> string"
  tax_service :: "string \<Rightarrow> json list \<Rightarrow> pydict \<Rightarrow> exception + pyval"
  calculation_service :: "string \<Rightarrow> json list \<Rightarrow> pydict \<Rightarrow> exception + pyval"

text \<open>\<^verbatim>\<open>str(v)\<close>, as an f-string field formats it.\<close>

fun py_str :: "runtime \<Rightarrow> json \<Rightarrow> string" where
  "py_str rt JNull = ''None''"
| "py_str rt (JBool b) = (if b then ''True'' else ''False'')"
| "py_str rt (JInt i) = str_int i"
| "py_str rt (JStr s) = s"
| "py_str rt v = repr_value rt v"

text \<open>
  Binding the arguments of a call to a bound method \<^verbatim>\<open>def f(self, p1, ..., pn)\<close> whose
  first \<open>nreq\<close> parameters have no default; \<open>varkw\<close> says that the signature ends in
  \<^verbatim>\<open>**kwargs\<close>. The call raises \<^verbatim>\<open>TypeError\<close> on too many positional arguments, on a
  keyword that names \<^verbatim>\<open>self\<close> or a parameter already given by position, on an unknown
  keyword when there is no \<^verbatim>\<open>**kwargs\<close>, and on a missing required parameter.
  Otherwise it yields the bound parameters and the remaining keywords.
\<close>

definition bind_args ::
  "runtime \<Rightarrow> string \<Rightarrow> string list \<Rightarrow> nat \<Rightarrow> bool \<Rightarrow> json list \<Rightarrow> pydict
    \<Rightarrow> exception + (pydict \<times> pydict)" where
  "bind_args rt fname names nreq varkw args kwargs =
     (let positional = zip names args;
          named = filter (\<lambda>(k, v). k \<in> set names) kwargs;
          extra = filter (\<lambda>(k, v). k \<notin> set names) kwargs;
          bound = positional @ named
      in if length names < length args
            \<or> list_ex (\<lambda>(k, v). k = ''self'' \<or> k \<in> set (map fst positional)) kwargs
            \<or> (\<not> varkw \<and> extra \<noteq> [])
            \<or> list_ex (\<lambda>n. \<not> dict_has bound n) (take nreq names)
         then Inl (TypeError (binding_error rt fname args kwargs))
         else Inr (bound, extra))"

section \<open>UserService\<close>

record user_service =
  users :: "(int \<times> pydict) list"
  next_id :: int

definition init_user_service :: user_service where
  "init_user_service = \<lparr>users = [], next_id = 1\<rparr>"

text \<open>
  The keys of \<^verbatim>\<open>self.users\<close> are the integers drawn from \<^verbatim>\<open>next_id\<close>. A value is looked
  up by hash and equality: a list or a dict is unhashable, a bool, an int or a float
  finds the key it equals, anything else finds none.
\<close>

fun users_key :: "json \<Rightarrow> exception + int option" where
  "users_key (JArr xs) = Inl (TypeError (''unhashable type: '' @ quote @ ''list'' @ quote))"
| "users_key (JObj d) = Inl (TypeError (''unhashable type: '' @ quote @ ''dict'' @ quote))"
| "users_key (JInt i) = Inr (Some i)"
| "users_key (JBool b) = Inr (Some (if b then 1 else 0))"
| "users_key (JFloat (Finite r)) = Inr (if of_int \<lfloor>r\<rfloor> = r then Some \<lfloor>r\<rfloor> else None)"
| "users_key (JFloat NegZero) = Inr (Some 0)"
| "users_key v = Inr None"

text \<open>\<^verbatim>\<open>user_id in self.users\<close>, giving the key found.\<close>

definition find_user :: "user_service \<Rightarrow> json \<Rightarrow> exception + int option" where
  "find_user self user_id =
     (case users_key user_id of
        Inl e \<Rightarrow> Inl e
      | Inr None \<Rightarrow> Inr None
      | Inr (Some k) \<Rightarrow> Inr (if map_of (users self) k = None then None else Some k))"

definition not_found :: "runtime \<Rightarrow> json \<Rightarrow> exception" where
  "not_found rt user_id = ValueError (''User with ID '' @ py_str rt user_id @ '' not found'')"

text \<open>The loop of \<^verbatim>\<open>create_user\<close> over \<^verbatim>\<open>self.users.values()\<close>; \<open>None\<close> when it ends.\<close>

fun check_duplicate :: "runtime \<Rightarrow> json \<Rightarrow> pydict list \<Rightarrow> exception option" where
  "check_duplicate rt email [] = None"
| "check_duplicate rt email (user # rest) =
     (case map_of user ''email'' of
        None \<Rightarrow> Some (Exception (quote @ ''email'' @ quote))
      | Some e \<Rightarrow>
          if py_eq e email
          then Some (ValueError (''User with email '' @ py_str rt email @ '' already exists''))
          else check_duplicate rt email rest)"

definition create_user ::
  "runtime \<Rightarrow> user_service \<Rightarrow> json \<Rightarrow> json \<Rightarrow> json \<Rightarrow> (exception + json) \<times> user_service" where
  "create_user rt self name email age =
     (if \<not> truthy name \<or> \<not> truthy email
      then (Inl (ValueError ''Name and email are required''), self)
      else case check_duplicate rt email (map snd (users self)) of
        Some e \<Rightarrow> (Inl e, self)
      | None \<Rightarrow>
          let user_id = next_id self;
              user = [(''id'', JInt user_id), (''name'', name), (''email'', email),
                      (''age'', age), (''created_at'', JStr (now_isoformat rt 0)),
                      (''updated_at'', JStr (now_isoformat rt 1))]
          in (Inr (JObj user),
              self\<lparr>next_id := user_id + 1, users := AList.update user_id user (users self)\<rparr>))"

definition get_user_by_id ::
  "runtime \<Rightarrow> user_service \<Rightarrow> json \<Rightarrow> (exception + json) \<times> user_service" where
  "get_user_by_id rt self user_id =
     (case find_user self user_id of
        Inl e \<Rightarrow> (Inl e, self)
      | Inr None \<Rightarrow> (Inl (not_found rt user_id), self)
      | Inr (Some k) \<Rightarrow> (Inr (JObj (the (map_of (users self) k))), self))"

text \<open>The loop of \<^verbatim>\<open>update_user\<close> over \<^verbatim>\<open>kwargs.items()\<close>.\<close>

fun apply_updates :: "pydict \<Rightarrow> pydict \<Rightarrow> pydict" where
  "apply_updates [] user = user"
| "apply_updates ((key, val) # items) user =
     apply_updates items
       (if key \<in> set [''name'', ''email'', ''age''] then AList.update key val user else user)"

definition update_user ::
  "runtime \<Rightarrow> user_service \<Rightarrow> json \<Rightarrow> pydict \<Rightarrow> (exception + json) \<times> user_service" where
  "update_user rt self user_id kwargs =
     (case find_user self user_id of
        Inl e \<Rightarrow> (Inl e, self)
      | Inr None \<Rightarrow> (Inl (not_found rt user_id), self)
      | Inr (Some k) \<Rightarrow>
          let user = apply_updates kwargs (the (map_of (users self) k));
              user = AList.update ''updated_at'' (JStr (now_isoformat rt 0)) user
          in (Inr (JObj user), self\<lparr>users := AList.update k user (users self)\<rparr>))"

definition delete_user ::
  "runtime \<Rightarrow> user_service \<Rightarrow> json \<Rightarrow> (exception + json) \<times> user_service" where
  "delete_user rt self user_id =
     (case find_user self user_id of
        Inl e \<Rightarrow> (Inl e, self)
      | Inr None \<Rightarrow> (Inl (not_found rt user_id), self)
      | Inr (Some k) \<Rightarrow>
          (Inr (JObj [(''message'',
                  JStr (''User '' @ py_str rt user_id @ '' deleted successfully''))]),
           self\<lparr>users := AList.delete k (users self)\<rparr>))"

definition list_users :: "user_service \<Rightarrow> (exception + json) \<times> user_service" where
  "list_users self = (Inr (JArr (map (\<lambda>(k, user). JObj user) (users self))), self)"

section \<open>SystemService\<close>

definition supported_methods :: "string list" where
  "supported_methods =
     [''calculate_tax'', ''calculate_progressive_tax'', ''create_user'', ''get_user_by_id'',
      ''update_user'', ''delete_user'', ''list_users'', ''add'', ''subtract'', ''multiply'',
      ''divide'', ''power'', ''batch_calculate'', ''get_server_info'', ''ping'']"

definition get_server_info :: "runtime \<Rightarrow> json" where
  "get_server_info rt =
     JObj [(''server_type'', JStr ''JSON-RPC''), (''version'', JStr ''1.0.0''),
           (''timestamp'', JStr (now_isoformat rt 0)), (''status'', JStr ''running''),
           (''supported_methods'', JArr (map JStr supported_methods))]"

definition ping :: "runtime \<Rightarrow> json" where
  "ping rt = JObj [(''message'', JStr ''pong''), (''timestamp'', JStr (now_isoformat rt 0))]"

section \<open>JSONRPCServer\<close>

definition PARSE_ERROR :: int where "PARSE_ERROR = - 32700"
definition INVALID_REQUEST :: int where "INVALID_REQUEST = - 32600"
definition METHOD_NOT_FOUND :: int where "METHOD_NOT_FOUND = - 32601"
definition INVALID_PARAMS :: int where "INVALID_PARAMS = - 32602"
definition INTERNAL_ERROR :: int where "INTERNAL_ERROR = - 32603"

definition create_error_response :: "json \<Rightarrow> int \<Rightarrow> string \<Rightarrow> json" where
  "create_error_response request_id code message =
     JObj [(''jsonrpc'', JStr ''2.0''),
           (''error'', JObj [(''code'', JInt code), (''message'', JStr message)]),
           (''id'', request_id)]"

subsection \<open>The state of the server and the store of user dicts\<close>

text \<open>
  Of the four services of the server only \<^verbatim>\<open>user_service\<close> has state. A response of a
  batch holds the very dict of a user until the whole batch is serialised, and a
  later entry of the batch may change that dict (\<^verbatim>\<open>update_user\<close> writes into it) or
  take it out of the table (\<^verbatim>\<open>delete_user\<close>), where it stays as it is. The user
  dicts are therefore a store: the dicts in the table of the service, under their
  keys, together with \<open>detached\<close>, the dicts that \<^verbatim>\<open>delete_user\<close> has removed, under the
  keys they had. A key names one dict for good, since no id is assigned twice
  (shown for \<^verbatim>\<open>UserService\<close> below).
\<close>

record server =
  user_svc :: user_service
  detached :: "(int \<times> pydict) list"

definition init_server :: server where
  "init_server = \<lparr>user_svc = init_user_service, detached = []\<rparr>"

definition deref :: "server \<Rightarrow> int \<Rightarrow> pydict" where
  "deref self k =
     (case map_of (users (user_svc self)) k of
        Some user \<Rightarrow> user
      | None \<Rightarrow> (case map_of (detached self) k of Some user \<Rightarrow> user | None \<Rightarrow> []))"

text \<open>
  \<^verbatim>\<open>jsonify\<close>: the JSON value of a response, read from the store as it is when the
  call is made; it raises \<^verbatim>\<open>TypeError\<close> at the first object that is not JSON.
\<close>

fun jsonify :: "server \<Rightarrow> pyval \<Rightarrow> exception + json"
  and jsonify_list :: "server \<Rightarrow> pyval list \<Rightarrow> exception + json list"
  and jsonify_items :: "server \<Rightarrow> (string \<times> pyval) list \<Rightarrow> exception + pydict" where
  "jsonify self (Plain v) = Inr v"
| "jsonify self (Stored k) = Inr (JObj (deref self k))"
| "jsonify self (NonJson t) =
     Inl (TypeError (''Object of type '' @ t @ '' is not JSON serializable''))"
| "jsonify self (PList vs) =
     (case jsonify_list self vs of Inl e \<Rightarrow> Inl e | Inr js \<Rightarrow> Inr (JArr js))"
| "jsonify self (PDict items) =
     (case jsonify_items self items of Inl e \<Rightarrow> Inl e | Inr d \<Rightarrow> Inr (JObj d))"
| "jsonify_list self [] = Inr []"
| "jsonify_list self (v # vs) =
     (case jsonify self v of
        Inl e \<Rightarrow> Inl e
      | Inr j \<Rightarrow> (case jsonify_list self vs of Inl e \<Rightarrow> Inl e | Inr js \<Rightarrow> Inr (j # js)))"
| "jsonify_items self [] = Inr []"
| "jsonify_items self ((k, v) # items) =
     (case jsonify self v of
        Inl e \<Rightarrow> Inl e
      | Inr j \<Rightarrow>
          (case jsonify_items self items of Inl e \<Rightarrow> Inl e | Inr d \<Rightarrow> Inr ((k, j) # d)))"

subsection \<open>The bound methods of the method map\<close>

text \<open>
  A bound method takes the state of the server, the positional and the keyword
  arguments, and returns a result or an exception together with the state it
  leaves. Where the method of \<^verbatim>\<open>UserService\<close> returns a stored dict, the result is
  \<open>Stored\<close> with the key the dict is stored under.
\<close>

type_synonym bound_method =
  "server \<Rightarrow> json list \<Rightarrow> pydict \<Rightarrow> (exception + pyval) \<times> server"

text \<open>The key that \<^verbatim>\<open>self.users[user_id]\<close> reads.\<close>

definition stored_key :: "user_service \<Rightarrow> json \<Rightarrow> int" where
  "stored_key svc user_id = (case find_user svc user_id of Inr (Some k) \<Rightarrow> k | _ \<Rightarrow> 0)"

definition bound_create_user :: "runtime \<Rightarrow> bound_method" where
  "bound_create_user rt self args kwargs =
     (case bind_args rt ''create_user'' [''name'', ''email'', ''age''] 2 False args kwargs of
        Inl e \<Rightarrow> (Inl e, self)
      | Inr (bound, extra) \<Rightarrow>
          (case create_user rt (user_svc self) (dict_get bound ''name'')
                  (dict_get bound ''email'') (dict_get_default bound ''age'' JNull) of
             (Inl e, svc) \<Rightarrow> (Inl e, self\<lparr>user_svc := svc\<rparr>)
           | (Inr user, svc) \<Rightarrow>
               (Inr (Stored (next_id (user_svc self))), self\<lparr>user_svc := svc\<rparr>)))"

definition bound_get_user_by_id :: "runtime \<Rightarrow> bound_method" where
  "bound_get_user_by_id rt self args kwargs =
     (case bind_args rt ''get_user_by_id'' [''user_id''] 1 False args kwargs of
        Inl e \<Rightarrow> (Inl e, self)
      | Inr (bound, extra) \<Rightarrow>
          (case get_user_by_id rt (user_svc self) (dict_get bound ''user_id'') of
             (Inl e, svc) \<Rightarrow> (Inl e, self\<lparr>user_svc := svc\<rparr>)
           | (Inr user, svc) \<Rightarrow>
               (Inr (Stored (stored_key (user_svc self) (dict_get bound ''user_id''))),
                self\<lparr>user_svc := svc\<rparr>)))"

definition bound_update_user :: "runtime \<Rightarrow> bound_method" where
  "bound_update_user rt self args kwargs =
     (case bind_args rt ''update_user'' [''user_id''] 1 True args kwargs of
        Inl e \<Rightarrow> (Inl e, self)
      | Inr (bound, extra) \<Rightarrow>
          (case update_user rt (user_svc self) (dict_get bound ''user_id'') extra of
             (Inl e, svc) \<Rightarrow> (Inl e, self\<lparr>user_svc := svc\<rparr>)
           | (Inr user, svc) \<Rightarrow>
               (Inr (Stored (stored_key (user_svc self) (dict_get bound ''user_id''))),
                self\<lparr>user_svc := svc\<rparr>)))"

text \<open>
  \<^verbatim>\<open>delete_user\<close> returns a new dict; the dict it takes out of the table goes to
  \<open>detached\<close> as it is.
\<close>

definition bound_delete_user :: "runtime \<Rightarrow> bound_method" where
  "bound_delete_user rt self args kwargs =
     (case bind_args rt ''delete_user'' [''user_id''] 1 False args kwargs of
        Inl e \<Rightarrow> (Inl e, self)
      | Inr (bound, extra) \<Rightarrow>
          (case delete_user rt (user_svc self) (dict_get bound ''user_id'') of
             (Inl e, svc) \<Rightarrow> (Inl e, self\<lparr>user_svc := svc\<rparr>)
           | (Inr message, svc) \<Rightarrow>
               let k = stored_key (user_svc self) (dict_get bound ''user_id'')
               in (Inr (Plain message),
                   self\<lparr>user_svc := svc,
                        detached := (k, deref self k) # detached self\<rparr>)))"

text \<open>\<^verbatim>\<open>list_users\<close> returns a new list of the stored dicts.\<close>

definition bound_list_users :: "runtime \<Rightarrow> bound_method" where
  "bound_list_users rt self args kwargs =
     (case bind_args rt ''list_users'' [] 0 False args kwargs of
        Inl e \<Rightarrow> (Inl e, self)
      | Inr (bound, extra) \<Rightarrow>
          (case list_users (user_svc self) of
             (Inl e, svc) \<Rightarrow> (Inl e, self\<lparr>user_svc := svc\<rparr>)
           | (Inr user_list, svc) \<Rightarrow>
               (Inr (PList (map (\<lambda>(k, user). Stored k) (users (user_svc self)))),
                self\<lparr>user_svc := svc\<rparr>)))"

definition bound_get_server_info :: "runtime \<Rightarrow> bound_method" where
  "bound_get_server_info rt self args kwargs =
     (case bind_args rt ''get_server_info'' [] 0 False args kwargs of
        Inl e \<Rightarrow> (Inl e, self)
      | Inr (bound, extra) \<Rightarrow> (Inr (Plain (get_server_info rt)), self))"

definition bound_ping :: "runtime \<Rightarrow> bound_method" where
  "bound_ping rt self args kwargs =
     (case bind_args rt ''ping'' [] 0 False args kwargs of
        Inl e \<Rightarrow> (Inl e, self)
      | Inr (bound, extra) \<Rightarrow> (Inr (Plain (ping rt)), self))"

definition bound_tax :: "runtime \<Rightarrow> string \<Rightarrow> bound_method" where
  "bound_tax rt name self args kwargs = (tax_service rt name args kwargs, self)"

definition bound_calculation :: "runtime \<Rightarrow> string \<Rightarrow> bound_method" where
  "bound_calculation rt name self args kwargs = (calculation_service rt name args kwargs, self)"

definition method_map :: "runtime \<Rightarrow> (string \<times> bound_method) list" where
  "method_map rt =
     [(''calculate_tax'', bound_tax rt ''calculate_tax''),
      (''calculate_progressive_tax'', bound_tax rt ''calculate_progressive_tax''),
      (''create_user'', bound_create_user rt),
      (''get_user_by_id'', bound_get_user_by_id rt),
      (''update_user'', bound_update_user rt),
      (''delete_user'', bound_delete_user rt),
      (''list_users'', bound_list_users rt),
      (''add'', bound_calculation rt ''add''),
      (''subtract'', bound_calculation rt ''subtract''),
      (''multiply'', bound_calculation rt ''multiply''),
      (''divide'', bound_calculation rt ''divide''),
      (''power'', bound_calculation rt ''power''),
      (''batch_calculate'', bound_calculation rt ''batch_calculate''),
      (''get_server_info'', bound_get_server_info rt),
      (''ping'', bound_ping rt)]"

subsection \<open>\<^verbatim>\<open>_call_method\<close>\<close>

text \<open>The two \<^verbatim>\<open>except\<close> clauses around the call of the method.\<close>

fun reraise :: "string \<Rightarrow> (exception + pyval) \<times> server \<Rightarrow> (exception + pyval) \<times> server" where
  "reraise method (Inl (TypeError m), self) =
     (Inl (Exception (''Invalid parameters for method '' @ quote @ method @ quote @ '': '' @ m)),
      self)"
| "reraise method (Inl (ValueError m), self) =
     (Inl (Exception
        (''Invalid parameter values for method '' @ quote @ method @ quote @ '': '' @ m)),
      self)"
| "reraise method r = r"

definition call_method ::
  "runtime \<Rightarrow> server \<Rightarrow> string \<Rightarrow> json \<Rightarrow> (exception + pyval) \<times> server" where
  "call_method rt self method params =
     (case map_of (method_map rt) method of
        None \<Rightarrow> (Inl (Exception (''Method '' @ quote @ method @ quote @ '' not found'')), self)
      | Some func \<Rightarrow>
          reraise method
            (if is_dict params then func self [] (the_dict params)
             else if is_list params then func self (the_list params) []
             else func self [] []))"

subsection \<open>\<^verbatim>\<open>_process_single_request\<close>\<close>

text \<open>
  The result is \<open>Inl\<close> when an exception leaves the function, \<open>Inr None\<close> when it
  returns \<^verbatim>\<open>None\<close>, and \<open>Inr (Some r)\<close> when it returns the response \<open>r\<close>: the dict
  of \<^verbatim>\<open>_create_error_response\<close>, or the dict built around the result of the method.
\<close>

definition error_code_of :: "exception \<Rightarrow> int" where
  "error_code_of e =
     (if str_contains ''not found'' (lower (str_exc e)) then METHOD_NOT_FOUND
      else INTERNAL_ERROR)"

definition process_single_request ::
  "runtime \<Rightarrow> server \<Rightarrow> json \<Rightarrow> (exception + pyval option) \<times> server" where
  "process_single_request rt self data =
     (if \<not> is_dict data
      then (Inr (Some (Plain (create_error_response JNull INVALID_REQUEST ''Invalid Request''))),
            self)
      else
        let d = the_dict data;
            jsonrpc = dict_get d ''jsonrpc'';
            method = dict_get d ''method'';
            params = dict_get_default d ''params'' (JArr []);
            request_id = dict_get d ''id'';
            is_notification = (\<not> dict_has d ''id'')
        in if \<not> py_eq jsonrpc (JStr ''2.0'')
           then (if \<not> is_notification
                 then (Inr (Some (Plain (create_error_response request_id INVALID_REQUEST
                         ''Invalid Request''))), self)
                 else (Inr None, self))
           else if \<not> truthy method \<or> \<not> is_str method
           then (if \<not> is_notification
                 then (Inr (Some (Plain (create_error_response request_id INVALID_REQUEST
                         ''Invalid Request''))), self)
                 else (Inr None, self))
           else
             case call_method rt self (the_str method) params of
               (Inr result, self') \<Rightarrow>
                 if is_notification then (Inr None, self')
                 else (Inr (Some (PDict [(''jsonrpc'', Plain (JStr ''2.0'')),
                                         (''result'', result),
                                         (''id'', Plain request_id)])), self')
             | (Inl e, self') \<Rightarrow>
                 if \<not> is_notification
                 then (Inr (Some (Plain (create_error_response request_id (error_code_of e)
                         (str_exc e)))), self')
                 else (Inr None, self'))"

subsection \<open>\<^verbatim>\<open>_handle_request\<close>\<close>

text \<open>
  \<^verbatim>\<open>request.get_json()\<close> raises on a body that is not JSON and returns the decoded value
  otherwise; JSON \<^verbatim>\<open>null\<close> decodes to \<^verbatim>\<open>None\<close>. The loop over a batch collects the
  responses as they are returned, stored dicts included; \<^verbatim>\<open>jsonify\<close> reads them after
  the loop, inside the outer \<^verbatim>\<open>try\<close>, so that an exception it raises is answered by
  the outer \<^verbatim>\<open>except\<close>. The reply is the JSON body, or the empty body with status
  204. The \<open>k\<close>-th entry of a batch reads the runtime \<open>rts k\<close>.
\<close>

datatype raw = Malformed | Decoded json

datatype reply = Body json | NoContent

fun process_batch ::
  "(nat \<Rightarrow> runtime) \<Rightarrow> server \<Rightarrow> json list \<Rightarrow> (exception + pyval list) \<times> server" where
  "process_batch rts self [] = (Inr [], self)"
| "process_batch rts self (item # items) =
     (case process_single_request (rts 0) self item of
        (Inl e, self') \<Rightarrow> (Inl e, self')
      | (Inr response, self') \<Rightarrow>
          (case process_batch (rts \<circ> Suc) self' items of
             (Inl e, self'') \<Rightarrow> (Inl e, self'')
           | (Inr responses, self'') \<Rightarrow>
               (Inr (case response of None \<Rightarrow> responses | Some r \<Rightarrow> r # responses), self'')))"

text \<open>\<^verbatim>\<open>jsonify(x)\<close> as the value of a \<^verbatim>\<open>return\<close> inside the \<^verbatim>\<open>try\<close>.\<close>

definition return_json :: "server \<Rightarrow> pyval \<Rightarrow> (exception + reply) \<times> server" where
  "return_json self v =
     (case jsonify self v of Inl e \<Rightarrow> (Inl e, self) | Inr j \<Rightarrow> (Inr (Body j), self))"

definition handle_request :: "(nat \<Rightarrow> runtime) \<Rightarrow> server \<Rightarrow> raw \<Rightarrow> reply \<times> server" where
  "handle_request rts self body =
     (case body of
        Malformed \<Rightarrow> (Body (create_error_response JNull PARSE_ERROR ''Parse error''), self)
      | Decoded data \<Rightarrow>
          if data = JNull
          then (Body (create_error_response JNull PARSE_ERROR ''Parse error''), self)
          else
            (case (if is_list data
                   then (case process_batch rts self (the_list data) of
                           (Inl e, self') \<Rightarrow> (Inl e, self')
                         | (Inr responses, self') \<Rightarrow>
                             if responses \<noteq> [] then return_json self' (PList responses)
                             else (Inr NoContent, self'))
                   else (case process_single_request (rts 0) self data of
                           (Inl e, self') \<Rightarrow> (Inl e, self')
                         | (Inr response, self') \<Rightarrow>
                             (case response of
                                Some r \<Rightarrow> return_json self' r
                              | None \<Rightarrow> (Inr NoContent, self')))) of
               (Inl e, self') \<Rightarrow>
                 (Body (create_error_response JNull INTERNAL_ERROR
                    (''Internal error: '' @ str_exc e)), self')
             | (Inr out, self') \<Rightarrow> (out, self')))"

section \<open>Vocabulary of the properties\<close>

text \<open>
  A response envelope: a mapping with the version tag, an \<open>id\<close> key, and exactly one
  of a result and an error object with an integer code and a message.
\<close>

fun wf_error :: "json \<Rightarrow> bool" where
  "wf_error (JObj e) =
     (case (map_of e ''code'', map_of e ''message'') of
        (Some (JInt c), Some (JStr m)) \<Rightarrow> True
      | _ \<Rightarrow> False)"
| "wf_error _ = False"

definition wf_envelope :: "json \<Rightarrow> bool" where
  "wf_envelope r =
     (is_dict r \<and> map_of (the_dict r) ''jsonrpc'' = Some (JStr ''2.0'') \<and>
      dict_has (the_dict r) ''id'' \<and>
      (case (map_of (the_dict r) ''result'', map_of (the_dict r) ''error'') of
         (Some v, None) \<Rightarrow> True
       | (None, Some e) \<Rightarrow> wf_error e
       | _ \<Rightarrow> False))"

fun wf_reply :: "reply \<Rightarrow> bool" where
  "wf_reply NoContent = True"
| "wf_reply (Body b) =
     (wf_envelope b \<or> (is_list b \<and> the_list b \<noteq> [] \<and> list_all wf_envelope (the_list b)))"

definition envelope_id :: "json \<Rightarrow> json option" where
  "envelope_id r = map_of (the_dict r) ''id''"

text \<open>The code of the error object of an envelope, if it has one.\<close>

definition envelope_code :: "json \<Rightarrow> json option" where
  "envelope_code r =
     (case map_of (the_dict r) ''error'' of
        Some (JObj e) \<Rightarrow> map_of e ''code''
      | _ \<Rightarrow> None)"

text \<open>
  A response before it is serialised: the dict of an error, or the dict with the
  version tag, a result and the identifier. Its identifier is the one of the
  envelope that \<^verbatim>\<open>jsonify\<close> makes of it.
\<close>

fun wf_response :: "pyval \<Rightarrow> bool" where
  "wf_response (Plain r) = wf_envelope r"
| "wf_response (PDict [(a, Plain (JStr v)), (b, result), (c, Plain request_id)]) =
     (a = ''jsonrpc'' \<and> v = ''2.0'' \<and> b = ''result'' \<and> c = ''id'')"
| "wf_response _ = False"

fun response_id :: "pyval \<Rightarrow> json option" where
  "response_id (Plain r) = envelope_id r"
| "response_id (PDict items) =
     (case map_of items ''id'' of Some (Plain request_id) \<Rightarrow> Some request_id | _ \<Rightarrow> None)"
| "response_id _ = None"

text \<open>A notification is a mapping without the key \<open>id\<close>.\<close>

fun is_notification :: "json \<Rightarrow> bool" where
  "is_notification (JObj d) = (\<not> dict_has d ''id'')"
| "is_notification _ = False"

text \<open>
  The identifier an entry is answered under: the value of its \<open>id\<close> key, and null
  for an entry that is not a mapping.
\<close>

fun entry_id :: "json \<Rightarrow> json option" where
  "entry_id (JObj d) = map_of d ''id''"
| "entry_id _ = Some JNull"

text \<open>The calls of the methods of \<^verbatim>\<open>UserService\<close>, and a run of them in sequence.\<close>

datatype user_op =
    CreateUser json json json
  | GetUserById json
  | UpdateUser json pydict
  | DeleteUser json
  | ListUsers

fun user_step :: "runtime \<Rightarrow> user_service \<Rightarrow> user_op \<Rightarrow> (exception + json) \<times> user_service" where
  "user_step rt self (CreateUser name email age) = create_user rt self name email age"
| "user_step rt self (GetUserById user_id) = get_user_by_id rt self user_id"
| "user_step rt self (UpdateUser user_id kwargs) = update_user rt self user_id kwargs"
| "user_step rt self (DeleteUser user_id) = delete_user rt self user_id"
| "user_step rt self ListUsers = list_users self"

fun run_ops :: "user_service \<Rightarrow> (runtime \<times> user_op) list \<Rightarrow> user_service" where
  "run_ops self [] = self"
| "run_ops self ((rt, op) # ops) = run_ops (snd (user_step rt self op)) ops"

text \<open>The ids that the successful \<^verbatim>\<open>create_user\<close> calls of a run assign, in order.\<close>

fun created_ids :: "user_service \<Rightarrow> (runtime \<times> user_op) list \<Rightarrow> int list" where
  "created_ids self [] = []"
| "created_ids self ((rt, op) # ops) =
     (case (op, fst (user_step rt self op)) of
        (CreateUser name email age, Inr r) \<Rightarrow> [next_id self]
      | _ \<Rightarrow> [])
     @ created_ids (snd (user_step rt self op)) ops"

definition users_inv :: "user_service \<Rightarrow> bool" where
  "users_inv self = list_all (\<lambda>(k, user). k < next_id self) (users self)"

definition allowed_key :: "string \<times> json \<Rightarrow> bool" where
  "allowed_key kv = (fst kv \<in> set [''name'', ''email'', ''age''])"

text \<open>A runtime and requests for the concrete instances below.\<close>

definition example_runtime :: runtime where
  "example_runtime =
     \<lparr>now_isoformat = (\<lambda>n. ''2024-01-01T00:00:00''),
      repr_value = (\<lambda>v. ''1.5''),
      binding_error = (\<lambda>fname args kwargs. fname @ ''() got unexpected arguments''),
      tax_service = (\<lambda>name args kwargs. Inl (TypeError ''unsupported operand type(s)'')),
      calculation_service = (\<lambda>name args kwargs. Inl (ValueError ''Division by zero is not allowed''))\<rparr>"

definition example_runtimes :: "nat \<Rightarrow> runtime" where
  "example_runtimes k = example_runtime"

text \<open>
  A runtime whose calculation methods return what \<^verbatim>\<open>power(-8, 0.5)\<close> returns: the
  dict of \<^verbatim>\<open>CalculationService.power\<close> with a \<^verbatim>\<open>complex\<close> as result.
\<close>

definition power_result :: "json list \<Rightarrow> pyval" where
  "power_result operands =
     PDict [(''operation'', Plain (JStr ''power'')), (''operands'', Plain (JArr operands)),
            (''result'', NonJson ''complex''),
            (''calculation_id'', Plain (JStr ''7d9f5c1e-0b7a-4a52-9c3e-2f6a8d1b4e90'')),
            (''calculated_at'', Plain (JStr ''2024-01-01T00:00:00''))]"

definition complex_runtime :: runtime where
  "complex_runtime =
     example_runtime\<lparr>calculation_service := (\<lambda>name args kwargs. Inr (power_result args))\<rparr>"

definition complex_runtimes :: "nat \<Rightarrow> runtime" where
  "complex_runtimes k = complex_runtime"

text \<open>A service that holds one user, created before the clock of the example.\<close>

definition example_user :: pydict where
  "example_user =
     [(''id'', JInt 1), (''name'', JStr ''Ann''), (''email'', JStr ''ann@example.com''),
      (''age'', JInt 30), (''created_at'', JStr ''2023-06-01T12:00:00''),
      (''updated_at'', JStr ''2023-06-01T12:00:00'')]"

definition example_service :: user_service where
  "example_service = \<lparr>users = [(1, example_user)], next_id = 2\<rparr>"

definition request :: "string \<Rightarrow> json \<Rightarrow> json \<Rightarrow> json" where
  "request method params request_id =
     JObj [(''jsonrpc'', JStr ''2.0''), (''method'', JStr method), (''params'', params),
           (''id'', request_id)]"

definition notification :: "string \<Rightarrow> json \<Rightarrow> json" where
  "notification method params =
     JObj [(''jsonrpc'', JStr ''2.0''), (''method'', JStr method), (''params'', params)]"

section \<open>Properties of the dispatcher\<close>

subsection \<open>Single requests and batches\<close>

lemma wf_error_response: "wf_envelope (create_error_response i c m)"
  by (simp add: wf_envelope_def create_error_response_def dict_has_def)

lemma id_error_response: "envelope_id (create_error_response i c m) = Some i"
  by (simp add: envelope_id_def create_error_response_def)

lemma wf_response_cases:
  assumes "wf_response r"
  obtains (error) j where "r = Plain j" "wf_envelope j"
  | (result) res i where
      "r = PDict [(''jsonrpc'', Plain (JStr ''2.0'')), (''result'', res), (''id'', Plain i)]"
  using assms by (auto elim!: wf_response.elims(2))

lemma jsonify_response:
  assumes "wf_response r" and "jsonify self r = Inr j"
  shows "wf_envelope j \<and> envelope_id j = response_id r"
  using assms(1)
proof (cases rule: wf_response_cases)
  case (error j')
  with assms(2) show ?thesis by simp
next
  case (result res i)
  with assms(2) show ?thesis
    by (auto simp add: wf_envelope_def envelope_id_def dict_has_def split: sum.splits)
qed

lemma jsonify_responses:
  "list_all wf_response rs \<Longrightarrow> jsonify_list self rs = Inr js \<Longrightarrow>
   list_all wf_envelope js \<and> map envelope_id js = map response_id rs"
proof (induction rs arbitrary: js)
  case Nil
  then show ?case by simp
next
  case (Cons r rs)
  from Cons.prems(2) obtain j js' where
    j: "jsonify self r = Inr j" and js': "jsonify_list self rs = Inr js'" and "js = j # js'"
    by (auto split: sum.splits)
  with Cons.prems(1) Cons.IH [of js'] jsonify_response [of r self j] show ?case by simp
qed

lemma psr_not_dict:
  "\<not> is_dict data \<Longrightarrow>
   process_single_request rt self data =
     (Inr (Some (Plain (create_error_response JNull INVALID_REQUEST ''Invalid Request''))), self)"
  by (simp add: process_single_request_def)

lemma psr_notification:
  "\<not> dict_has d ''id'' \<Longrightarrow> \<exists>self'. process_single_request rt self (JObj d) = (Inr None, self')"
  by (simp add: process_single_request_def Let_def split: prod.splits sum.splits)

lemma dict_get_has: "dict_has d k \<Longrightarrow> Some (dict_get d k) = map_of d k"
  by (auto simp add: dict_get_def dict_get_default_def dict_has_def)

lemma psr_call:
  assumes "dict_has d ''id''"
  shows "\<exists>env self'. process_single_request rt self (JObj d) = (Inr (Some env), self') \<and>
      wf_response env \<and> response_id env = map_of d ''id''"
  using assms dict_get_has [OF assms]
  by (simp add: process_single_request_def Let_def wf_error_response id_error_response
        split: prod.splits sum.splits)

lemma psr_total:
  "\<exists>r self'. process_single_request rt self data = (Inr r, self') \<and>
     (r = None) = is_notification data \<and>
     (case r of None \<Rightarrow> True | Some env \<Rightarrow> wf_response env \<and> response_id env = entry_id data)"
proof (cases data)
  case (JObj d)
  show ?thesis
  proof (cases "dict_has d ''id''")
    case True
    from psr_call [OF True, of rt self] JObj True show ?thesis by auto
  next
    case False
    from psr_notification [OF False, of rt self] JObj False show ?thesis by auto
  qed
qed (simp_all add: psr_not_dict wf_error_response id_error_response)

lemma batch_total:
  "\<exists>rs self'. process_batch rts self items = (Inr rs, self') \<and>
     list_all wf_response rs \<and>
     map response_id rs = map entry_id (filter (\<lambda>x. \<not> is_notification x) items)"
proof (induction items arbitrary: rts self)
  case Nil
  show ?case by simp
next
  case (Cons item items)
  obtain r s1 where r: "process_single_request (rts 0) self item = (Inr r, s1)"
    "(r = None) = is_notification item"
    "case r of None \<Rightarrow> True | Some env \<Rightarrow> wf_response env \<and> response_id env = entry_id item"
    using psr_total [of "rts 0" self item] by blast
  obtain rs s2 where rs: "process_batch (rts \<circ> Suc) s1 items = (Inr rs, s2)"
    "list_all wf_response rs"
    "map response_id rs = map entry_id (filter (\<lambda>x. \<not> is_notification x) items)"
    using Cons.IH [of "rts \<circ> Suc" s1] by blast
  show ?case
    using r rs by (cases r) auto
qed

lemma process_batch_append:
  "process_batch rts self xs = (Inr rs1, s1) \<Longrightarrow>
   process_batch (\<lambda>k. rts (length xs + k)) s1 ys = (Inr rs2, s2) \<Longrightarrow>
   process_batch rts self (xs @ ys) = (Inr (rs1 @ rs2), s2)"
proof (induction xs arbitrary: rts self rs1)
  case Nil
  then show ?case by simp
next
  case (Cons x xs)
  from Cons.prems(1) obtain r sa rs' where
    x: "process_single_request (rts 0) self x = (Inr r, sa)" and
    xs: "process_batch (rts \<circ> Suc) sa xs = (Inr rs', s1)" and
    rs1: "rs1 = (case r of None \<Rightarrow> rs' | Some e \<Rightarrow> e # rs')"
    by (auto split: prod.splits sum.splits)
  have "(\<lambda>k. (rts \<circ> Suc) (length xs + k)) = (\<lambda>k. rts (length (x # xs) + k))"
    by (simp add: comp_def)
  with Cons.prems(2) have "process_batch (\<lambda>k. (rts \<circ> Suc) (length xs + k)) s1 ys = (Inr rs2, s2)"
    by simp
  from Cons.IH [OF xs this] x rs1 show ?case
    by (cases r) (simp_all add: comp_def)
qed

lemma process_batch_at:
  assumes pre: "process_batch rts self pre = (Inr rs1, s1)"
    and item: "process_single_request (rts (length pre)) s1 item = (Inr r, s2)"
    and post: "process_batch (\<lambda>k. rts (Suc (length pre) + k)) s2 post = (Inr rs2, s3)"
  shows "process_batch rts self (pre @ item # post) =
           (Inr (rs1 @ (case r of None \<Rightarrow> rs2 | Some e \<Rightarrow> e # rs2)), s3)"
proof -
  have "(\<lambda>k. rts (length pre + k)) \<circ> Suc = (\<lambda>k. rts (Suc (length pre) + k))"
    by (simp add: comp_def)
  with item post
  have "process_batch (\<lambda>k. rts (length pre + k)) s1 (item # post) =
          (Inr (case r of None \<Rightarrow> rs2 | Some e \<Rightarrow> e # rs2), s3)"
    by simp
  from process_batch_append [OF pre this] show ?thesis .
qed

lemma return_json_reply:
  "wf_reply (fst (case return_json self v of
      (Inl e, self') \<Rightarrow>
        (Body (create_error_response JNull INTERNAL_ERROR (''Internal error: '' @ str_exc e)), self')
    | (Inr out, self') \<Rightarrow> (out, self'))) =
   (case jsonify self v of Inl e \<Rightarrow> True | Inr j \<Rightarrow> wf_reply (Body j))"
  by (simp add: return_json_def wf_error_response split: sum.splits)

text \<open>
  Claim C1. Whatever the transport hands over (a body that is not JSON, a mapping,
  an array or any other value), \<open>handle_request\<close> returns a well-formed reply: one
  response envelope, a non-empty list of response envelopes, or no content. No
  exception leaves \<open>process_single_request\<close>, for any value and any behaviour of the
  methods, and none leaves the loop over a batch; an exception that \<^verbatim>\<open>jsonify\<close> raises
  is answered with an error envelope.
\<close>

theorem dispatch_total:
  "wf_reply (fst (handle_request rts self body)) \<and>
   (\<exists>r self'. process_single_request rt self data = (Inr r, self')) \<and>
   (\<exists>rs self'. process_batch rts self items = (Inr rs, self'))"
proof (intro conjI)
  show "wf_reply (fst (handle_request rts self body))"
  proof (cases body)
    case Malformed
    then show ?thesis by (simp add: handle_request_def wf_error_response)
  next
    case (Decoded d)
    show ?thesis
    proof (cases "is_list d")
      case True
      obtain rs s' where rs: "process_batch rts self (the_list d) = (Inr rs, s')"
        "list_all wf_response rs"
        using batch_total [of rts self "the_list d"] by blast
      have "wf_reply (Body j)" if "rs \<noteq> []" "jsonify s' (PList rs) = Inr j" for j
      proof -
        from that(2) obtain js where js: "jsonify_list s' rs = Inr js" "j = JArr js"
          by (auto split: sum.splits)
        from jsonify_responses [OF rs(2) js(1)]
        have "list_all wf_envelope js" "length js = length rs"
          using length_map by (simp, metis)
        with that(1) js(2) show ?thesis by auto
      qed
      with Decoded True rs(1) show ?thesis
        by (auto simp add: handle_request_def wf_error_response return_json_def
            split: sum.splits)
    next
      case False
      obtain r s' where r: "process_single_request (rts 0) self d = (Inr r, s')"
        "case r of None \<Rightarrow> True | Some env \<Rightarrow> wf_response env \<and> response_id env = entry_id d"
        using psr_total [of "rts 0" self d] by blast
      show ?thesis
      proof (cases r)
        case None
        with Decoded False r(1) show ?thesis
          by (simp add: handle_request_def wf_error_response)
      next
        case (Some env)
        with r(2) have "wf_response env" by simp
        then have "wf_reply (Body j)" if "jsonify s' env = Inr j" for j
          using jsonify_response [OF _ that] by simp
        with Decoded False r(1) Some show ?thesis
          by (auto simp add: handle_request_def wf_error_response return_json_def
              split: sum.splits)
      qed
    qed
  qed
  show "\<exists>r self'. process_single_request rt self data = (Inr r, self')"
    using psr_total [of rt self data] by blast
  show "\<exists>rs self'. process_batch rts self items = (Inr rs, self')"
    using batch_total [of rts self items] by blast
qed

theorem dispatch_total_witness:
  "wf_reply (fst (handle_request example_runtimes init_server
      (Decoded (JArr [JInt 3, request ''divide'' (JArr [JInt 1, JInt 0]) (JInt 7)])))) \<and>
   fst (handle_request example_runtimes init_server
      (Decoded (JArr [JInt 3, request ''divide'' (JArr [JInt 1, JInt 0]) (JInt 7)]))) =
   Body (JArr [create_error_response JNull INVALID_REQUEST ''Invalid Request'',
     create_error_response (JInt 7) INTERNAL_ERROR
       (''Invalid parameter values for method '' @ quote @ ''divide'' @ quote @
        '': Division by zero is not allowed'')])"
proof -
  have "fst (handle_request example_runtimes init_server
      (Decoded (JArr [JInt 3, request ''divide'' (JArr [JInt 1, JInt 0]) (JInt 7)]))) =
   Body (JArr [create_error_response JNull INVALID_REQUEST ''Invalid Request'',
     create_error_response (JInt 7) INTERNAL_ERROR
       (''Invalid parameter values for method '' @ quote @ ''divide'' @ quote @
        '': Division by zero is not allowed'')])"
    by code_simp
  with dispatch_total [of example_runtimes init_server
      "Decoded (JArr [JInt 3, request ''divide'' (JArr [JInt 1, JInt 0]) (JInt 7)])"]
  show ?thesis by simp
qed

text \<open>
  Claim C2. A request without the key \<open>id\<close> gets no response envelope:
  \<open>process_single_request\<close> returns \<open>None\<close> whether the envelope is valid or not and
  whether the method fails or not; submitted alone it is answered with no content;
  as an entry of a batch, at any position, it adds nothing to the responses.
\<close>

theorem notification_no_response:
  assumes "\<not> dict_has d ''id''"
  shows "(\<exists>self'. process_single_request rt self (JObj d) = (Inr None, self')) \<and>
    (\<exists>self'. handle_request rts self (Decoded (JObj d)) = (NoContent, self')) \<and>
    (\<exists>rs1 s1 s2 rs2 s3.
       process_batch rts self pre = (Inr rs1, s1) \<and>
       process_single_request (rts (length pre)) s1 (JObj d) = (Inr None, s2) \<and>
       process_batch (\<lambda>k. rts (Suc (length pre) + k)) s2 post = (Inr rs2, s3) \<and>
       process_batch rts self (pre @ JObj d # post) = (Inr (rs1 @ rs2), s3))"
proof (intro conjI)
  show "\<exists>self'. process_single_request rt self (JObj d) = (Inr None, self')"
    using psr_notification [OF assms] .
  obtain s' where "process_single_request (rts 0) self (JObj d) = (Inr None, s')"
    using psr_notification [OF assms] by blast
  then show "\<exists>self'. handle_request rts self (Decoded (JObj d)) = (NoContent, self')"
    by (simp add: handle_request_def)
  obtain rs1 s1 where pre: "process_batch rts self pre = (Inr rs1, s1)"
    using batch_total [of rts self pre] by blast
  obtain s2 where item: "process_single_request (rts (length pre)) s1 (JObj d) = (Inr None, s2)"
    using psr_notification [OF assms] by blast
  obtain rs2 s3 where post: "process_batch (\<lambda>k. rts (Suc (length pre) + k)) s2 post = (Inr rs2, s3)"
    using batch_total [of _ s2 post] by blast
  from process_batch_at [OF pre item post] pre item post
  show "\<exists>rs1 s1 s2 rs2 s3.
       process_batch rts self pre = (Inr rs1, s1) \<and>
       process_single_request (rts (length pre)) s1 (JObj d) = (Inr None, s2) \<and>
       process_batch (\<lambda>k. rts (Suc (length pre) + k)) s2 post = (Inr rs2, s3) \<and>
       process_batch rts self (pre @ JObj d # post) = (Inr (rs1 @ rs2), s3)"
    by auto
qed

theorem notification_no_response_witness:
  "\<not> dict_has [(''jsonrpc'', JStr ''2.0''), (''method'', JStr ''get_user_by_id''),
       (''params'', JArr [JInt 999])] ''id'' \<and>
   (\<exists>self'. handle_request example_runtimes init_server
      (Decoded (JObj [(''jsonrpc'', JStr ''2.0''), (''method'', JStr ''get_user_by_id''),
         (''params'', JArr [JInt 999])])) = (NoContent, self'))"
proof -
  have h: "\<not> dict_has [(''jsonrpc'', JStr ''2.0''), (''method'', JStr ''get_user_by_id''),
       (''params'', JArr [JInt 999])] ''id''"
    by (simp add: dict_has_def)
  from h notification_no_response [OF h, of _ init_server example_runtimes]
  show ?thesis by blast
qed

text \<open>
  A call with \<open>id\<close> present always makes \<open>process_single_request\<close> return one
  response that carries the request's id. What the client gets depends on
  \<^verbatim>\<open>jsonify\<close>: the envelope with that id when the response can be serialised, and
  the envelope of the outer \<^verbatim>\<open>except\<close>, with a null id, when it cannot.
\<close>

lemma call_reply:
  assumes "dict_has d ''id''"
  shows "\<exists>env self'.
     process_single_request (rts 0) self (JObj d) = (Inr (Some env), self') \<and>
     wf_response env \<and> response_id env = map_of d ''id'' \<and>
     handle_request rts self (Decoded (JObj d)) =
       (case jsonify self' env of
          Inr j \<Rightarrow> Body j
        | Inl e \<Rightarrow> Body (create_error_response JNull INTERNAL_ERROR
                    (''Internal error: '' @ str_exc e)), self') \<and>
     (\<forall>j. jsonify self' env = Inr j \<longrightarrow> wf_envelope j \<and> envelope_id j = map_of d ''id'')"
proof -
  obtain env s' where
    env: "process_single_request (rts 0) self (JObj d) = (Inr (Some env), s')"
      "wf_response env" "response_id env = map_of d ''id''"
    using psr_call [OF assms, of "rts 0" self] by blast
  then have "handle_request rts self (Decoded (JObj d)) =
       (case jsonify s' env of
          Inr j \<Rightarrow> Body j
        | Inl e \<Rightarrow> Body (create_error_response JNull INTERNAL_ERROR
                    (''Internal error: '' @ str_exc e)), s')"
    by (simp add: handle_request_def return_json_def split: sum.splits)
  moreover have "\<forall>j. jsonify s' env = Inr j \<longrightarrow> wf_envelope j \<and> envelope_id j = map_of d ''id''"
    using jsonify_response [OF env(2)] env(3) by simp
  ultimately show ?thesis using env by blast
qed

lemma power_call:
  assumes "calculation_service rt ''power'' args [] = Inr result"
  shows "process_single_request rt self (request ''power'' (JArr args) request_id) =
     (Inr (Some (PDict [(''jsonrpc'', Plain (JStr ''2.0'')), (''result'', result),
                        (''id'', Plain request_id)])), self)"
  using assms
  by (simp add: process_single_request_def request_def dict_get_def dict_get_default_def
        dict_has_def call_method_def method_map_def bound_calculation_def)

text \<open>
  Claim C3 does not hold of the code. The request
  \<^verbatim>\<open>{"jsonrpc":"2.0","method":"power","params":[-8,0.5],"id":7}\<close> is a mapping with the
  version tag, a string as method and an id; \<^verbatim>\<open>power\<close> returns a dict whose result is
  a \<^verbatim>\<open>complex\<close>, the response is built with id 7, \<^verbatim>\<open>jsonify\<close> raises on it inside the
  outer \<^verbatim>\<open>try\<close>, and the reply is an INTERNAL_ERROR envelope whose id is null, not 7.
  The theorem takes from the runtime that the result of \<^verbatim>\<open>power\<close> is one that \<^verbatim>\<open>jsonify\<close>
  rejects.
\<close>

theorem unserializable_result_loses_id:
  assumes "calculation_service (rts 0) ''power'' [JInt (- 8), JFloat (Finite (1 / 2))] [] =
             Inr result"
    and "jsonify self result = Inl e"
  shows "process_single_request (rts 0) self
       (request ''power'' (JArr [JInt (- 8), JFloat (Finite (1 / 2))]) (JInt 7)) =
     (Inr (Some (PDict [(''jsonrpc'', Plain (JStr ''2.0'')), (''result'', result),
                        (''id'', Plain (JInt 7))])), self) \<and>
   handle_request rts self
       (Decoded (request ''power'' (JArr [JInt (- 8), JFloat (Finite (1 / 2))]) (JInt 7))) =
     (Body (create_error_response JNull INTERNAL_ERROR (''Internal error: '' @ str_exc e)),
      self) \<and>
   envelope_id (create_error_response JNull INTERNAL_ERROR (''Internal error: '' @ str_exc e)) =
     Some JNull"
proof (intro conjI)
  show single: "process_single_request (rts 0) self
       (request ''power'' (JArr [JInt (- 8), JFloat (Finite (1 / 2))]) (JInt 7)) =
     (Inr (Some (PDict [(''jsonrpc'', Plain (JStr ''2.0'')), (''result'', result),
                        (''id'', Plain (JInt 7))])), self)"
    using power_call [OF assms(1)] .
  from assms(2) show "handle_request rts self
       (Decoded (request ''power'' (JArr [JInt (- 8), JFloat (Finite (1 / 2))]) (JInt 7))) =
     (Body (create_error_response JNull INTERNAL_ERROR (''Internal error: '' @ str_exc e)),
      self)"
    by (simp add: handle_request_def single return_json_def) (simp add: request_def)
  show "envelope_id (create_error_response JNull INTERNAL_ERROR
      (''Internal error: '' @ str_exc e)) = Some JNull"
    by (rule id_error_response)
qed

theorem unserializable_result_loses_id_witness:
  "calculation_service (complex_runtimes 0) ''power'' [JInt (- 8), JFloat (Finite (1 / 2))] [] =
     Inr (power_result [JInt (- 8), JFloat (Finite (1 / 2))]) \<and>
   jsonify init_server (power_result [JInt (- 8), JFloat (Finite (1 / 2))]) =
     Inl (TypeError ''Object of type complex is not JSON serializable'') \<and>
   handle_request complex_runtimes init_server
       (Decoded (request ''power'' (JArr [JInt (- 8), JFloat (Finite (1 / 2))]) (JInt 7))) =
     (Body (create_error_response JNull INTERNAL_ERROR
        ''Internal error: Object of type complex is not JSON serializable''), init_server)"
proof -
  have a: "calculation_service (complex_runtimes 0) ''power''
      [JInt (- 8), JFloat (Finite (1 / 2))] [] =
     Inr (power_result [JInt (- 8), JFloat (Finite (1 / 2))])"
    by (simp add: complex_runtimes_def complex_runtime_def)
  have b: "jsonify init_server (power_result [JInt (- 8), JFloat (Finite (1 / 2))]) =
     Inl (TypeError ''Object of type complex is not JSON serializable'')"
    by (simp add: power_result_def)
  from unserializable_result_loses_id [where rts = complex_runtimes and self = init_server, OF a b]
    a b show ?thesis by simp
qed

text \<open>
  The responses of a batch are one for each entry that is not a notification, in
  the order of these entries and under their identifiers. The reply is no content
  when there is none, the list of their envelopes when \<^verbatim>\<open>jsonify\<close> accepts them all,
  and one envelope of the outer \<^verbatim>\<open>except\<close> otherwise.
\<close>

lemma batch_reply:
  "\<exists>rs self'.
     process_batch rts self items = (Inr rs, self') \<and>
     list_all wf_response rs \<and>
     map response_id rs = map entry_id (filter (\<lambda>x. \<not> is_notification x) items) \<and>
     length rs = length (filter (\<lambda>x. \<not> is_notification x) items) \<and>
     handle_request rts self (Decoded (JArr items)) =
       (if list_all is_notification items then NoContent
        else case jsonify_list self' rs of
          Inr js \<Rightarrow> Body (JArr js)
        | Inl e \<Rightarrow> Body (create_error_response JNull INTERNAL_ERROR
                    (''Internal error: '' @ str_exc e)), self') \<and>
     (\<forall>js. jsonify_list self' rs = Inr js \<longrightarrow>
        list_all wf_envelope js \<and>
        map envelope_id js = map entry_id (filter (\<lambda>x. \<not> is_notification x) items))"
proof -
  obtain rs s' where rs: "process_batch rts self items = (Inr rs, s')"
    "list_all wf_response rs"
    "map response_id rs = map entry_id (filter (\<lambda>x. \<not> is_notification x) items)"
    using batch_total [of rts self items] by blast
  from rs(3) have len: "length rs = length (filter (\<lambda>x. \<not> is_notification x) items)"
    using length_map by metis
  from len have "(rs = []) = (filter (\<lambda>x. \<not> is_notification x) items = [])"
    by (metis length_0_conv)
  then have "(rs = []) = list_all is_notification items"
    by (simp add: list_all_iff filter_empty_conv)
  with rs(1) have reply: "handle_request rts self (Decoded (JArr items)) =
       (if list_all is_notification items then NoContent
        else case jsonify_list s' rs of
          Inr js \<Rightarrow> Body (JArr js)
        | Inl e \<Rightarrow> Body (create_error_response JNull INTERNAL_ERROR
                    (''Internal error: '' @ str_exc e)), s')"
    by (simp add: handle_request_def return_json_def split: sum.splits)
  have "\<forall>js. jsonify_list s' rs = Inr js \<longrightarrow>
        list_all wf_envelope js \<and>
        map envelope_id js = map entry_id (filter (\<lambda>x. \<not> is_notification x) items)"
    using jsonify_responses [OF rs(2)] rs(3) by simp
  with rs len reply show ?thesis by blast
qed

lemma ping_call:
  "process_single_request rt self (request ''ping'' (JArr []) request_id) =
     (Inr (Some (PDict [(''jsonrpc'', Plain (JStr ''2.0'')), (''result'', Plain (ping rt)),
                        (''id'', Plain request_id)])), self)"
  by (simp add: process_single_request_def request_def dict_get_def dict_get_default_def
        dict_has_def call_method_def method_map_def bound_ping_def bind_args_def)

text \<open>
  Claim C4 does not hold of the code. The batch of \<^verbatim>\<open>ping\<close> with id 1 and
  \<^verbatim>\<open>power(-8, 0.5)\<close> with id 2 has two entries that are not notifications and the
  loop collects two responses, but \<^verbatim>\<open>jsonify\<close> raises on the list and the reply is a
  single INTERNAL_ERROR envelope with a null id, not a list of two envelopes.
\<close>

theorem unserializable_result_collapses_batch:
  assumes "calculation_service (rts 1) ''power'' [JInt (- 8), JFloat (Finite (1 / 2))] [] =
             Inr result"
    and "jsonify self result = Inl e"
  shows "process_batch rts self
       [request ''ping'' (JArr []) (JInt 1),
        request ''power'' (JArr [JInt (- 8), JFloat (Finite (1 / 2))]) (JInt 2)] =
     (Inr [PDict [(''jsonrpc'', Plain (JStr ''2.0'')), (''result'', Plain (ping (rts 0))),
                  (''id'', Plain (JInt 1))],
           PDict [(''jsonrpc'', Plain (JStr ''2.0'')), (''result'', result),
                  (''id'', Plain (JInt 2))]], self) \<and>
   handle_request rts self
       (Decoded (JArr [request ''ping'' (JArr []) (JInt 1),
          request ''power'' (JArr [JInt (- 8), JFloat (Finite (1 / 2))]) (JInt 2)])) =
     (Body (create_error_response JNull INTERNAL_ERROR (''Internal error: '' @ str_exc e)),
      self) \<and>
   \<not> is_list (create_error_response JNull INTERNAL_ERROR (''Internal error: '' @ str_exc e)) \<and>
   length (filter (\<lambda>x. \<not> is_notification x)
       [request ''ping'' (JArr []) (JInt 1),
        request ''power'' (JArr [JInt (- 8), JFloat (Finite (1 / 2))]) (JInt 2)]) = 2"
proof (intro conjI)
  from assms(1) have "calculation_service ((rts \<circ> Suc) 0) ''power''
      [JInt (- 8), JFloat (Finite (1 / 2))] [] = Inr result"
    by simp
  from power_call [OF this]
  show batch: "process_batch rts self
       [request ''ping'' (JArr []) (JInt 1),
        request ''power'' (JArr [JInt (- 8), JFloat (Finite (1 / 2))]) (JInt 2)] =
     (Inr [PDict [(''jsonrpc'', Plain (JStr ''2.0'')), (''result'', Plain (ping (rts 0))),
                  (''id'', Plain (JInt 1))],
           PDict [(''jsonrpc'', Plain (JStr ''2.0'')), (''result'', result),
                  (''id'', Plain (JInt 2))]], self)"
    by (simp add: ping_call)
  from assms(2) show "handle_request rts self
       (Decoded (JArr [request ''ping'' (JArr []) (JInt 1),
          request ''power'' (JArr [JInt (- 8), JFloat (Finite (1 / 2))]) (JInt 2)])) =
     (Body (create_error_response JNull INTERNAL_ERROR (''Internal error: '' @ str_exc e)),
      self)"
    by (simp add: handle_request_def batch return_json_def del: process_batch.simps)
  show "\<not> is_list (create_error_response JNull INTERNAL_ERROR
      (''Internal error: '' @ str_exc e))"
    by (simp add: create_error_response_def)
  show "length (filter (\<lambda>x. \<not> is_notification x)
       [request ''ping'' (JArr []) (JInt 1),
        request ''power'' (JArr [JInt (- 8), JFloat (Finite (1 / 2))]) (JInt 2)]) = 2"
    by (simp add: request_def dict_has_def)
qed

theorem unserializable_result_collapses_batch_witness:
  "calculation_service (complex_runtimes 1) ''power'' [JInt (- 8), JFloat (Finite (1 / 2))] [] =
     Inr (power_result [JInt (- 8), JFloat (Finite (1 / 2))]) \<and>
   jsonify init_server (power_result [JInt (- 8), JFloat (Finite (1 / 2))]) =
     Inl (TypeError ''Object of type complex is not JSON serializable'') \<and>
   handle_request complex_runtimes init_server
       (Decoded (JArr [request ''ping'' (JArr []) (JInt 1),
          request ''power'' (JArr [JInt (- 8), JFloat (Finite (1 / 2))]) (JInt 2)])) =
     (Body (create_error_response JNull INTERNAL_ERROR
        ''Internal error: Object of type complex is not JSON serializable''), init_server)"
proof -
  have a: "calculation_service (complex_runtimes 1) ''power''
      [JInt (- 8), JFloat (Finite (1 / 2))] [] =
     Inr (power_result [JInt (- 8), JFloat (Finite (1 / 2))])"
    by (simp add: complex_runtimes_def complex_runtime_def)
  have b: "jsonify init_server (power_result [JInt (- 8), JFloat (Finite (1 / 2))]) =
     Inl (TypeError ''Object of type complex is not JSON serializable'')"
    by (simp add: power_result_def)
  from unserializable_result_collapses_batch
    [where rts = complex_runtimes and self = init_server, OF a b] a b
  show ?thesis by simp
qed

text \<open>
  The responses of a batch hold the stored dicts, not copies: the answer to
  \<^verbatim>\<open>create_user\<close> shows the name that a later \<^verbatim>\<open>update_user\<close> of the same batch has
  written, and still shows the user after a later \<^verbatim>\<open>delete_user\<close>.
\<close>

lemma batch_reads_stored_dicts_at_the_end:
  "fst (handle_request example_runtimes init_server (Decoded (JArr
     [request ''create_user'' (JArr [JStr ''Ann'', JStr ''ann@example.com'']) (JInt 1),
      request ''update_user'' (JObj [(''user_id'', JInt 1), (''name'', JStr ''Bob'')]) (JInt 2),
      request ''delete_user'' (JArr [JInt 1]) (JInt 3)]))) =
   Body (JArr
     [JObj [(''jsonrpc'', JStr ''2.0''),
        (''result'', JObj [(''id'', JInt 1), (''name'', JStr ''Bob''),
           (''email'', JStr ''ann@example.com''), (''age'', JNull),
           (''created_at'', JStr ''2024-01-01T00:00:00''),
           (''updated_at'', JStr ''2024-01-01T00:00:00'')]),
        (''id'', JInt 1)],
      JObj [(''jsonrpc'', JStr ''2.0''),
        (''result'', JObj [(''id'', JInt 1), (''name'', JStr ''Bob''),
           (''email'', JStr ''ann@example.com''), (''age'', JNull),
           (''created_at'', JStr ''2024-01-01T00:00:00''),
           (''updated_at'', JStr ''2024-01-01T00:00:00'')]),
        (''id'', JInt 2)],
      JObj [(''jsonrpc'', JStr ''2.0''),
        (''result'', JObj [(''message'', JStr ''User 1 deleted successfully'')]),
        (''id'', JInt 3)]])"
  by code_simp

text \<open>
  A value that is not a mapping is answered with an INVALID_REQUEST (-32600)
  envelope whose identifier is null: as an entry of a batch at any position, null
  included, and at the top level when it is neither an array nor null.
\<close>

lemma code_error_response: "envelope_code (create_error_response i c m) = Some (JInt c)"
  by (simp add: envelope_code_def create_error_response_def)

lemma non_mapping_invalid_request:
  assumes "\<not> is_dict data"
  shows "process_single_request rt self data =
      (Inr (Some (Plain (create_error_response JNull INVALID_REQUEST ''Invalid Request''))),
       self) \<and>
    (\<not> is_list data \<and> data \<noteq> JNull \<longrightarrow>
       handle_request rts self (Decoded data) =
         (Body (create_error_response JNull INVALID_REQUEST ''Invalid Request''), self)) \<and>
    (\<exists>rs1 s1 rs2 s3.
       process_batch rts self pre = (Inr rs1, s1) \<and>
       process_batch (\<lambda>k. rts (Suc (length pre) + k)) s1 post = (Inr rs2, s3) \<and>
       process_batch rts self (pre @ data # post) =
         (Inr (rs1 @ Plain (create_error_response JNull INVALID_REQUEST ''Invalid Request'')
                 # rs2), s3))"
proof (intro conjI)
  show "process_single_request rt self data =
      (Inr (Some (Plain (create_error_response JNull INVALID_REQUEST ''Invalid Request''))),
       self)"
    using psr_not_dict [OF assms] .
  show "\<not> is_list data \<and> data \<noteq> JNull \<longrightarrow>
       handle_request rts self (Decoded data) =
         (Body (create_error_response JNull INVALID_REQUEST ''Invalid Request''), self)"
    by (simp add: handle_request_def return_json_def psr_not_dict [OF assms])
  obtain rs1 s1 where pre: "process_batch rts self pre = (Inr rs1, s1)"
    using batch_total [of rts self pre] by blast
  obtain rs2 s3 where post:
    "process_batch (\<lambda>k. rts (Suc (length pre) + k)) s1 post = (Inr rs2, s3)"
    using batch_total [of _ s1 post] by blast
  from process_batch_at [OF pre psr_not_dict [OF assms] post] pre post
  show "\<exists>rs1 s1 rs2 s3.
       process_batch rts self pre = (Inr rs1, s1) \<and>
       process_batch (\<lambda>k. rts (Suc (length pre) + k)) s1 post = (Inr rs2, s3) \<and>
       process_batch rts self (pre @ data # post) =
         (Inr (rs1 @ Plain (create_error_response JNull INVALID_REQUEST ''Invalid Request'')
                 # rs2), s3)"
    by auto
qed

text \<open>
  Claim C7 does not hold of the code. The body \<^verbatim>\<open>null\<close> is valid JSON and not a
  mapping, and it is answered with PARSE_ERROR (-32700): it decodes to \<^verbatim>\<open>None\<close>, which
  the guard for a body that could not be parsed takes for a parse failure. The same
  null as the entry of a batch, and any other top-level scalar, is answered with
  INVALID_REQUEST (-32600).
\<close>

theorem top_level_null_parse_error:
  "\<not> is_dict JNull \<and>
   handle_request rts self (Decoded JNull) =
     (Body (create_error_response JNull PARSE_ERROR ''Parse error''), self) \<and>
   envelope_code (create_error_response JNull PARSE_ERROR ''Parse error'') =
     Some (JInt (- 32700)) \<and>
   handle_request rts self (Decoded (JArr [JNull])) =
     (Body (JArr [create_error_response JNull INVALID_REQUEST ''Invalid Request'']), self) \<and>
   handle_request rts self (Decoded (JInt 0)) =
     (Body (create_error_response JNull INVALID_REQUEST ''Invalid Request''), self) \<and>
   envelope_code (create_error_response JNull INVALID_REQUEST ''Invalid Request'') =
     Some (JInt (- 32600))"
  by (simp add: handle_request_def return_json_def psr_not_dict code_error_response
        PARSE_ERROR_def INVALID_REQUEST_def)

theorem top_level_null_parse_error_witness:
  "fst (handle_request example_runtimes init_server (Decoded JNull)) =
     Body (create_error_response JNull PARSE_ERROR ''Parse error'') \<and>
   fst (handle_request example_runtimes init_server (Decoded (JArr [JNull]))) =
     Body (JArr [create_error_response JNull INVALID_REQUEST ''Invalid Request''])"
  using top_level_null_parse_error [of example_runtimes init_server] by simp

subsection \<open>Error codes\<close>





lemma dict_get_Some: "map_of d k = Some v \<Longrightarrow> dict_get d k = v"
  by (simp add: dict_get_def dict_get_default_def)




lemma call_method_scalar:
  "\<not> is_dict p \<Longrightarrow> \<not> is_list p \<Longrightarrow> call_method rt self m p = call_method rt self m (JArr [])"
  by (simp add: call_method_def split: option.splits)

text \<open>
  Claim C8. When \<open>params\<close> is present and is neither a mapping nor a list, the method
  is called with no positional and no keyword argument, which is the call made for
  the default \<^verbatim>\<open>[]\<close>; the request gets the answer, and leaves the state, of the same
  request without \<open>params\<close>. For a request with the version tag and a registered
  method, the response is the one built from the outcome of that call without
  arguments: the envelope of its result or of its exception under the request's
  id, and nothing for a notification.
\<close>

theorem scalar_params_no_arguments:
  assumes "\<not> is_dict p" and "\<not> is_list p"
  shows "(map_of (method_map rt) m = Some func \<longrightarrow>
            call_method rt self m p = reraise m (func self [] [])) \<and>
    call_method rt self m p = call_method rt self m (JArr []) \<and>
    (map_of d ''params'' = Some p \<longrightarrow>
       process_single_request rt self (JObj d) =
       process_single_request rt self (JObj (AList.delete ''params'' d))) \<and>
    (map_of d ''jsonrpc'' = Some (JStr ''2.0'') \<and> map_of d ''method'' = Some (JStr m) \<and>
     m \<noteq> [] \<and> map_of d ''params'' = Some p \<and> map_of (method_map rt) m = Some func \<longrightarrow>
       process_single_request rt self (JObj d) =
         (case reraise m (func self [] []) of
            (Inr result, self') \<Rightarrow>
              (if dict_has d ''id''
               then Inr (Some (PDict [(''jsonrpc'', Plain (JStr ''2.0'')), (''result'', result),
                                      (''id'', Plain (dict_get d ''id''))]))
               else Inr None, self')
          | (Inl e, self') \<Rightarrow>
              (if dict_has d ''id''
               then Inr (Some (Plain (create_error_response (dict_get d ''id'')
                       (error_code_of e) (str_exc e))))
               else Inr None, self')))"
proof (intro conjI impI)
  assume "map_of (method_map rt) m = Some func"
  with assms show "call_method rt self m p = reraise m (func self [] [])"
    by (simp add: call_method_def)
next
  show "call_method rt self m p = call_method rt self m (JArr [])"
    using call_method_scalar [OF assms] .
next
  assume p: "map_of d ''params'' = Some p"
  have others: "dict_get (AList.delete ''params'' d) k = dict_get d k" if "k \<noteq> ''params''" for k
    using that by (simp add: dict_get_def dict_get_default_def)
  have has: "dict_has (AList.delete ''params'' d) ''id'' = dict_has d ''id''"
    by (simp add: dict_has_def)
  have absent: "dict_get_default (AList.delete ''params'' d) ''params'' (JArr []) = JArr []"
    by (simp add: dict_get_default_def AList.delete_conv')
  have present: "dict_get_default d ''params'' (JArr []) = p"
    using p by (simp add: dict_get_default_def)
  show "process_single_request rt self (JObj d) =
       process_single_request rt self (JObj (AList.delete ''params'' d))"
    by (simp add: process_single_request_def Let_def others has absent present
          call_method_scalar [OF assms] split: prod.splits sum.splits)
next
  assume valid: "map_of d ''jsonrpc'' = Some (JStr ''2.0'') \<and> map_of d ''method'' = Some (JStr m) \<and>
     m \<noteq> [] \<and> map_of d ''params'' = Some p \<and> map_of (method_map rt) m = Some func"
  then have present: "dict_get_default d ''params'' (JArr []) = p"
    by (simp add: dict_get_default_def)
  from valid assms have call: "call_method rt self m p = reraise m (func self [] [])"
    by (simp add: call_method_def)
  from valid have fields: "dict_get d ''jsonrpc'' = JStr ''2.0''" "dict_get d ''method'' = JStr m"
    by (simp_all add: dict_get_Some)
  from valid have "m \<noteq> []" by simp
  with fields present call
  show "process_single_request rt self (JObj d) =
         (case reraise m (func self [] []) of
            (Inr result, self') \<Rightarrow>
              (if dict_has d ''id''
               then Inr (Some (PDict [(''jsonrpc'', Plain (JStr ''2.0'')), (''result'', result),
                                      (''id'', Plain (dict_get d ''id''))]))
               else Inr None, self')
          | (Inl e, self') \<Rightarrow>
              (if dict_has d ''id''
               then Inr (Some (Plain (create_error_response (dict_get d ''id'')
                       (error_code_of e) (str_exc e))))
               else Inr None, self'))"
    by (simp add: process_single_request_def Let_def split: prod.splits sum.splits)
qed

theorem scalar_params_no_arguments_witness:
  "\<not> is_dict (JStr ''x'') \<and> \<not> is_list (JStr ''x'') \<and>
   map_of (method_map example_runtime) ''ping'' = Some (bound_ping example_runtime) \<and>
   call_method example_runtime init_server ''ping'' (JStr ''x'') =
     (Inr (Plain (ping example_runtime)), init_server) \<and>
   process_single_request example_runtime init_server (request ''ping'' (JStr ''x'') (JInt 9)) =
     (Inr (Some (PDict [(''jsonrpc'', Plain (JStr ''2.0'')),
                        (''result'', Plain (ping example_runtime)),
                        (''id'', Plain (JInt 9))])), init_server)"
proof -
  have a: "\<not> is_dict (JStr ''x'')" by simp
  have b: "\<not> is_list (JStr ''x'')" by simp
  have c: "map_of (method_map example_runtime) ''ping'' = Some (bound_ping example_runtime)"
    by (simp add: method_map_def)
  have d: "reraise ''ping'' (bound_ping example_runtime init_server [] []) =
      (Inr (Plain (ping example_runtime)), init_server)"
    by (simp add: bound_ping_def bind_args_def)
  have e: "map_of [(''jsonrpc'', JStr ''2.0''), (''method'', JStr ''ping''),
        (''params'', JStr ''x''), (''id'', JInt 9)] ''jsonrpc'' = Some (JStr ''2.0'') \<and>
     map_of [(''jsonrpc'', JStr ''2.0''), (''method'', JStr ''ping''),
        (''params'', JStr ''x''), (''id'', JInt 9)] ''method'' = Some (JStr ''ping'') \<and>
     ''ping'' \<noteq> [] \<and>
     map_of [(''jsonrpc'', JStr ''2.0''), (''method'', JStr ''ping''),
        (''params'', JStr ''x''), (''id'', JInt 9)] ''params'' = Some (JStr ''x'')"
    by simp
  have f: "dict_has [(''jsonrpc'', JStr ''2.0''), (''method'', JStr ''ping''),
        (''params'', JStr ''x''), (''id'', JInt 9)] ''id''"
    "dict_get [(''jsonrpc'', JStr ''2.0''), (''method'', JStr ''ping''),
        (''params'', JStr ''x''), (''id'', JInt 9)] ''id'' = JInt 9"
    by (simp_all add: dict_has_def dict_get_def dict_get_default_def)
  note t = scalar_params_no_arguments [OF a b, where rt = example_runtime and m = "''ping''"
      and func = "bound_ping example_runtime" and self = init_server
      and d = "[(''jsonrpc'', JStr ''2.0''), (''method'', JStr ''ping''),
        (''params'', JStr ''x''), (''id'', JInt 9)]"]
  from t c have call: "call_method example_runtime init_server ''ping'' (JStr ''x'') =
      reraise ''ping'' (bound_ping example_runtime init_server [] [])"
    by blast
  from t c e have single: "process_single_request example_runtime init_server
      (JObj [(''jsonrpc'', JStr ''2.0''), (''method'', JStr ''ping''),
        (''params'', JStr ''x''), (''id'', JInt 9)]) =
      (case reraise ''ping'' (bound_ping example_runtime init_server [] []) of
         (Inr result, self') \<Rightarrow>
           (if dict_has [(''jsonrpc'', JStr ''2.0''), (''method'', JStr ''ping''),
                 (''params'', JStr ''x''), (''id'', JInt 9)] ''id''
            then Inr (Some (PDict [(''jsonrpc'', Plain (JStr ''2.0'')), (''result'', result),
                   (''id'', Plain (dict_get [(''jsonrpc'', JStr ''2.0''),
                      (''method'', JStr ''ping''), (''params'', JStr ''x''),
                      (''id'', JInt 9)] ''id''))]))
            else Inr None, self')
       | (Inl e, self') \<Rightarrow>
           (if dict_has [(''jsonrpc'', JStr ''2.0''), (''method'', JStr ''ping''),
                 (''params'', JStr ''x''), (''id'', JInt 9)] ''id''
            then Inr (Some (Plain (create_error_response
                   (dict_get [(''jsonrpc'', JStr ''2.0''), (''method'', JStr ''ping''),
                      (''params'', JStr ''x''), (''id'', JInt 9)] ''id'')
                   (error_code_of e) (str_exc e))))
            else Inr None, self'))"
    by blast
  from call d have "call_method example_runtime init_server ''ping'' (JStr ''x'') =
     (Inr (Plain (ping example_runtime)), init_server)"
    by simp
  moreover from single d f
  have "process_single_request example_runtime init_server
      (request ''ping'' (JStr ''x'') (JInt 9)) =
     (Inr (Some (PDict [(''jsonrpc'', Plain (JStr ''2.0'')),
                        (''result'', Plain (ping example_runtime)),
                        (''id'', Plain (JInt 9))])), init_server)"
    unfolding request_def by (simp only: prod.case sum.case if_True)
  ultimately show ?thesis using a b c by blast
qed

lemma str_int_999: "str_int 999 = ''999''"
  by code_simp

text \<open>
  Claim C5 does not hold of the code. On a server without users, the call
  \<^verbatim>\<open>get_user_by_id(999)\<close> with an id resolves a registered method, the handler raises
  \<^verbatim>\<open>ValueError\<close>, and the response carries METHOD_NOT_FOUND (-32601) instead of
  INTERNAL_ERROR: the text of the handler's exception contains \<open>not found\<close>, which
  is what the code takes for an unknown method.
\<close>

theorem get_user_by_id_unknown_code:
  "process_single_request rt init_server
     (request ''get_user_by_id'' (JArr [JInt 999]) (JInt 1)) =
   (Inr (Some (Plain (create_error_response (JInt 1) METHOD_NOT_FOUND
      (''Invalid parameter values for method '' @ quote @ ''get_user_by_id'' @ quote @
       '': User with ID 999 not found'')))), init_server) \<and>
   map_of (method_map rt) ''get_user_by_id'' = Some (bound_get_user_by_id rt) \<and>
   get_user_by_id rt init_user_service (JInt 999) =
     (Inl (ValueError ''User with ID 999 not found''), init_user_service)"
proof (intro conjI)
  have get: "get_user_by_id rt init_user_service (JInt 999) =
     (Inl (ValueError ''User with ID 999 not found''), init_user_service)"
    by (simp add: get_user_by_id_def find_user_def init_user_service_def not_found_def
          str_int_999)
  then show "get_user_by_id rt init_user_service (JInt 999) =
     (Inl (ValueError ''User with ID 999 not found''), init_user_service)" .
  show reg: "map_of (method_map rt) ''get_user_by_id'' = Some (bound_get_user_by_id rt)"
    by (simp add: method_map_def)
  have bound: "bound_get_user_by_id rt init_server [JInt 999] [] =
     (Inl (ValueError ''User with ID 999 not found''), init_server)"
    by (simp add: bound_get_user_by_id_def bind_args_def dict_has_def dict_get_def
          dict_get_default_def get init_server_def)
  have call: "call_method rt init_server ''get_user_by_id'' (JArr [JInt 999]) =
     (Inl (Exception (''Invalid parameter values for method '' @ quote @ ''get_user_by_id'' @
        quote @ '': User with ID 999 not found'')), init_server)"
    by (simp add: call_method_def reg bound)
  have code: "error_code_of (Exception (''Invalid parameter values for method '' @ quote @
        ''get_user_by_id'' @ quote @ '': User with ID 999 not found'')) = METHOD_NOT_FOUND"
    by code_simp
  from call code
  show "process_single_request rt init_server
     (request ''get_user_by_id'' (JArr [JInt 999]) (JInt 1)) =
   (Inr (Some (Plain (create_error_response (JInt 1) METHOD_NOT_FOUND
      (''Invalid parameter values for method '' @ quote @ ''get_user_by_id'' @ quote @
       '': User with ID 999 not found'')))), init_server)"
    by (simp add: process_single_request_def request_def dict_get_def dict_get_default_def
          dict_has_def)
qed

theorem get_user_by_id_unknown_code_witness:
  "fst (handle_request example_runtimes init_server
     (Decoded (request ''get_user_by_id'' (JArr [JInt 999]) (JInt 1)))) =
   Body (create_error_response (JInt 1) METHOD_NOT_FOUND
      (''Invalid parameter values for method '' @ quote @ ''get_user_by_id'' @ quote @
       '': User with ID 999 not found'')) \<and>
   METHOD_NOT_FOUND = - 32601"
  using get_user_by_id_unknown_code [of "example_runtimes 0"]
  by (simp add: handle_request_def return_json_def request_def METHOD_NOT_FOUND_def)

section \<open>Properties of UserService\<close>

lemma keys_below_update:
  "list_all (\<lambda>(k, u). k < n) al \<Longrightarrow> k0 < n \<Longrightarrow>
   list_all (\<lambda>(k, u). k < n) (AList.update k0 v al)"
  by (induction al) auto

lemma keys_below_delete:
  "list_all (\<lambda>(k, u). k < n) al \<Longrightarrow> list_all (\<lambda>(k, u). k < n) (AList.delete k0 al)"
  by (induction al) auto

lemma keys_below_mono:
  "list_all (\<lambda>(k, u). k < n) al \<Longrightarrow> n \<le> m \<Longrightarrow> list_all (\<lambda>(k, u). k < (m::int)) al"
  by (induction al) auto

lemma keys_below_absent:
  "list_all (\<lambda>(k, u). k < n) al \<Longrightarrow> (n::int) \<notin> fst ` set al"
  by (induction al) auto

lemma keys_below_present:
  "list_all (\<lambda>(k, u). k < n) al \<Longrightarrow> map_of al k \<noteq> None \<Longrightarrow> k < (n::int)"
  by (induction al) (auto split: if_splits)

lemma update_absent: "k \<notin> fst ` set al \<Longrightarrow> AList.update k v al = al @ [(k, v)]"
  by (induction al) auto

lemma find_user_present: "find_user self user_id = Inr (Some k) \<Longrightarrow> map_of (users self) k \<noteq> None"
  by (auto simp add: find_user_def split: sum.splits option.splits if_splits)

lemma create_user_inv:
  assumes "users_inv self"
  shows "users_inv (snd (create_user rt self name email age)) \<and>
   next_id self \<le> next_id (snd (create_user rt self name email age))"
proof -
  from assms have "list_all (\<lambda>(k, u). k < next_id self + 1) (users self)"
    unfolding users_inv_def by (rule keys_below_mono) simp
  then have "list_all (\<lambda>(k, u). k < next_id self + 1) (AList.update (next_id self) v (users self))"
    for v by (rule keys_below_update) simp
  with assms show ?thesis
    by (simp add: create_user_def users_inv_def Let_def split: option.splits)
qed

lemma update_user_inv:
  assumes "users_inv self"
  shows "users_inv (snd (update_user rt self user_id kwargs)) \<and>
   next_id self \<le> next_id (snd (update_user rt self user_id kwargs))"
proof (cases "find_user self user_id")
  case (Inl e)
  with assms show ?thesis by (simp add: update_user_def)
next
  case (Inr found)
  show ?thesis
  proof (cases found)
    case None
    with Inr assms show ?thesis by (simp add: update_user_def)
  next
    case (Some k)
    with Inr have "map_of (users self) k \<noteq> None" by (simp add: find_user_present)
    with assms have "k < next_id self"
      unfolding users_inv_def by (rule keys_below_present)
    with assms have "list_all (\<lambda>(k, u). k < next_id self) (AList.update k v (users self))" for v
      unfolding users_inv_def by (rule keys_below_update)
    with Inr Some show ?thesis
      by (simp add: update_user_def users_inv_def Let_def)
  qed
qed

lemma delete_user_inv:
  assumes "users_inv self"
  shows "users_inv (snd (delete_user rt self user_id)) \<and>
   next_id self \<le> next_id (snd (delete_user rt self user_id))"
proof -
  from assms have "list_all (\<lambda>(k, u). k < next_id self) (AList.delete k (users self))" for k
    unfolding users_inv_def by (rule keys_below_delete)
  with assms show ?thesis
    by (simp add: delete_user_def users_inv_def split: sum.splits option.splits)
qed

lemma user_step_inv:
  assumes "users_inv self"
  shows "users_inv (snd (user_step rt self op)) \<and>
    next_id self \<le> next_id (snd (user_step rt self op))"
proof (cases op)
  case (GetUserById user_id)
  with assms show ?thesis
    by (simp add: get_user_by_id_def split: sum.splits option.splits)
next
  case ListUsers
  with assms show ?thesis by (simp add: list_users_def)
qed (simp_all add: create_user_inv [OF assms] update_user_inv [OF assms]
      delete_user_inv [OF assms])

lemma create_user_fresh:
  assumes "users_inv self" and "create_user rt self name email age = (Inr r, self')"
  shows "map_of (users self) (next_id self) = None \<and>
    map_of (the_dict r) ''id'' = Some (JInt (next_id self)) \<and>
    users self' = users self @ [(next_id self, the_dict r)] \<and>
    next_id self' = next_id self + 1"
proof -
  from assms(1) have absent: "next_id self \<notin> fst ` set (users self)"
    unfolding users_inv_def by (rule keys_below_absent)
  then have "map_of (users self) (next_id self) = None"
    by (simp add: map_of_eq_None_iff)
  with assms(2) absent show ?thesis
    by (auto simp add: create_user_def Let_def update_absent split: if_splits option.splits)
qed

lemma run_ops_inv:
  "users_inv self \<Longrightarrow>
   users_inv (run_ops self ops) \<and> next_id self \<le> next_id (run_ops self ops) \<and>
   sorted_wrt (<) (created_ids self ops) \<and>
   (\<forall>i \<in> set (created_ids self ops). next_id self \<le> i)"
proof (induction ops arbitrary: self)
  case Nil
  then show ?case by simp
next
  case (Cons a ops)
  obtain rt op where a: "a = (rt, op)" by (cases a)
  let ?s = "snd (user_step rt self op)"
  from user_step_inv [OF Cons.prems, of rt op]
  have step: "users_inv ?s" "next_id self \<le> next_id ?s" by simp_all
  from Cons.IH [OF step(1)]
  have ih: "users_inv (run_ops ?s ops)" "next_id ?s \<le> next_id (run_ops ?s ops)"
    "sorted_wrt (<) (created_ids ?s ops)" "\<forall>i \<in> set (created_ids ?s ops). next_id ?s \<le> i"
    by simp_all
  show ?case
  proof (cases "\<exists>name email age r.
      op = CreateUser name email age \<and> fst (user_step rt self op) = Inr r")
    case True
    then obtain name email age r where
      c: "op = CreateUser name email age" "fst (user_step rt self op) = Inr r"
      by blast
    then have "create_user rt self name email age = (Inr r, ?s)"
      by (simp add: prod_eq_iff)
    from create_user_fresh [OF Cons.prems this]
    have bump: "next_id ?s = next_id self + 1" by simp
    from c a have ids: "created_ids self (a # ops) = next_id self # created_ids ?s ops"
      by simp
    from ih bump step show ?thesis
      unfolding ids using a by auto
  next
    case False
    with a have ids: "created_ids self (a # ops) = created_ids ?s ops"
      by (cases op; cases "fst (user_step rt self op)") auto
    from ih step show ?thesis
      unfolding ids using a by auto
  qed
qed

text \<open>
  Claim C9. In every state where all keys of the user table are below \<open>next_id\<close>
  (the initial state is one), each method of \<^verbatim>\<open>UserService\<close> keeps it so and never
  lowers \<open>next_id\<close>, and so does every run of the methods. The ids that the
  \<^verbatim>\<open>create_user\<close> calls of a run assign are strictly increasing, start at \<open>next_id\<close>
  and are no key of the table; a successful \<^verbatim>\<open>create_user\<close> takes \<open>next_id\<close>, which is
  no key of the table, appends the new user after the existing ones and leaves
  these as they were; an id that \<^verbatim>\<open>delete_user\<close> has freed is gone from the table and
  is assigned by no later \<^verbatim>\<open>create_user\<close>.
\<close>

theorem user_ids_never_reused:
  assumes "users_inv self"
  shows "users_inv (snd (user_step rt self op)) \<and>
    next_id self \<le> next_id (snd (user_step rt self op)) \<and>
    users_inv (run_ops self ops) \<and>
    next_id self \<le> next_id (run_ops self ops) \<and>
    sorted_wrt (<) (created_ids self ops) \<and>
    list_all (\<lambda>i. next_id self \<le> i \<and> map_of (users self) i = None) (created_ids self ops) \<and>
    (create_user rt self name email age = (Inr r, self') \<longrightarrow>
       map_of (users self) (next_id self) = None \<and>
       map_of (the_dict r) ''id'' = Some (JInt (next_id self)) \<and>
       users self' = users self @ [(next_id self, the_dict r)] \<and>
       next_id self' = next_id self + 1) \<and>
    (find_user self user_id = Inr (Some k) \<longrightarrow>
       map_of (users (snd (delete_user rt self user_id))) k = None \<and>
       k \<notin> set (created_ids (snd (delete_user rt self user_id)) ops))"
proof -
  note step = user_step_inv [OF assms, of rt op]
  note run = run_ops_inv [OF assms, of ops]
  have unused: "map_of (users self) i = None" if "next_id self \<le> i" for i
  proof (rule ccontr)
    assume "map_of (users self) i \<noteq> None"
    with assms have "i < next_id self"
      unfolding users_inv_def by (rule keys_below_present)
    with that show False by simp
  qed
  from run unused
  have fresh: "list_all (\<lambda>i. next_id self \<le> i \<and> map_of (users self) i = None)
      (created_ids self ops)"
    by (simp add: list_all_iff)
  have create: "map_of (users self) (next_id self) = None \<and>
       map_of (the_dict r) ''id'' = Some (JInt (next_id self)) \<and>
       users self' = users self @ [(next_id self, the_dict r)] \<and>
       next_id self' = next_id self + 1"
    if "create_user rt self name email age = (Inr r, self')"
    using create_user_fresh [OF assms that] .
  have freed: "map_of (users (snd (delete_user rt self user_id))) k = None \<and>
       k \<notin> set (created_ids (snd (delete_user rt self user_id)) ops)"
    if found: "find_user self user_id = Inr (Some k)"
  proof
    from found show "map_of (users (snd (delete_user rt self user_id))) k = None"
      by (simp add: delete_user_def AList.delete_conv')
    from found have "map_of (users self) k \<noteq> None" by (rule find_user_present)
    with assms have below: "k < next_id self"
      unfolding users_inv_def by (rule keys_below_present)
    from delete_user_inv [OF assms, of rt user_id]
    have d: "users_inv (snd (delete_user rt self user_id))"
      "next_id self \<le> next_id (snd (delete_user rt self user_id))" by simp_all
    from run_ops_inv [OF d(1), of ops] d(2) below
    show "k \<notin> set (created_ids (snd (delete_user rt self user_id)) ops)"
      by fastforce
  qed
  from step run fresh create freed show ?thesis by blast
qed

theorem user_ids_never_reused_witness:
  "users_inv init_user_service \<and>
   created_ids init_user_service
     [(example_runtime, CreateUser (JStr ''Ann'') (JStr ''ann@example.com'') (JInt 30)),
      (example_runtime, DeleteUser (JInt 1)),
      (example_runtime, CreateUser (JStr ''Bob'') (JStr ''bob@example.com'') JNull)] = [1, 2] \<and>
   sorted_wrt (<) (created_ids init_user_service
     [(example_runtime, CreateUser (JStr ''Ann'') (JStr ''ann@example.com'') (JInt 30)),
      (example_runtime, DeleteUser (JInt 1)),
      (example_runtime, CreateUser (JStr ''Bob'') (JStr ''bob@example.com'') JNull)]) \<and>
   users_inv (run_ops init_user_service
     [(example_runtime, CreateUser (JStr ''Ann'') (JStr ''ann@example.com'') (JInt 30)),
      (example_runtime, DeleteUser (JInt 1)),
      (example_runtime, CreateUser (JStr ''Bob'') (JStr ''bob@example.com'') JNull)])"
proof -
  have inv: "users_inv init_user_service"
    by (simp add: users_inv_def init_user_service_def)
  have ids: "created_ids init_user_service
     [(example_runtime, CreateUser (JStr ''Ann'') (JStr ''ann@example.com'') (JInt 30)),
      (example_runtime, DeleteUser (JInt 1)),
      (example_runtime, CreateUser (JStr ''Bob'') (JStr ''bob@example.com'') JNull)] = [1, 2]"
    by code_simp
  from inv ids user_ids_never_reused [OF inv, where ops =
     "[(example_runtime, CreateUser (JStr ''Ann'') (JStr ''ann@example.com'') (JInt 30)),
      (example_runtime, DeleteUser (JInt 1)),
      (example_runtime, CreateUser (JStr ''Bob'') (JStr ''bob@example.com'') JNull)]"]
  show ?thesis by simp
qed

lemma apply_updates_filter:
  "apply_updates kwargs user = apply_updates (filter allowed_key kwargs) user"
  by (induction kwargs user rule: apply_updates.induct) (simp_all add: allowed_key_def)

lemma apply_updates_lookup:
  "distinct (map fst kwargs) \<Longrightarrow>
   map_of (apply_updates kwargs user) f =
     (if f \<in> set [''name'', ''email'', ''age''] \<and> dict_has kwargs f then map_of kwargs f
      else map_of user f)"
proof (induction kwargs user rule: apply_updates.induct)
  case (1 user)
  then show ?case by (simp add: dict_has_def)
next
  case (2 key val items user)
  from "2.prems" have d: "distinct (map fst items)" and k: "key \<notin> fst ` set items"
    by simp_all
  from k have none: "map_of items key = None" by (simp add: map_of_eq_None_iff)
  from "2.IH" [OF d] none show ?case
    by (auto simp add: dict_has_def AList.update_conv')
qed

text \<open>
  Claim C10. For an existing user and keyword arguments with distinct keys (a Python
  dict), \<^verbatim>\<open>update_user\<close> returns and stores a user in which \<open>updated_at\<close> is the
  current time, each of \<open>name\<close>, \<open>email\<close>, \<open>age\<close> that is a keyword has the keyword's
  value, and every other field, \<open>id\<close> and \<open>created_at\<close> among them, is as before.
  Keywords outside the three are ignored: the call has the result and the effect of
  the call with these keywords removed, and it does not raise.
\<close>

theorem update_user_frame:
  assumes "find_user self user_id = Inr (Some k)"
    and "map_of (users self) k = Some user"
    and "distinct (map fst kwargs)"
  shows "\<exists>user'.
    update_user rt self user_id kwargs =
      (Inr (JObj user'), self\<lparr>users := AList.update k user' (users self)\<rparr>) \<and>
    (\<forall>f. map_of user' f =
       (if f = ''updated_at'' then Some (JStr (now_isoformat rt 0))
        else if f \<in> set [''name'', ''email'', ''age''] \<and> dict_has kwargs f then map_of kwargs f
        else map_of user f)) \<and>
    map_of user' ''id'' = map_of user ''id'' \<and>
    map_of user' ''created_at'' = map_of user ''created_at'' \<and>
    update_user rt self user_id kwargs =
      update_user rt self user_id (filter allowed_key kwargs)"
proof -
  let ?u = "AList.update ''updated_at'' (JStr (now_isoformat rt 0)) (apply_updates kwargs user)"
  from assms(1,2) have res: "update_user rt self user_id kwargs =
      (Inr (JObj ?u), self\<lparr>users := AList.update k ?u (users self)\<rparr>)"
    by (simp add: update_user_def Let_def)
  have look: "map_of ?u f =
       (if f = ''updated_at'' then Some (JStr (now_isoformat rt 0))
        else if f \<in> set [''name'', ''email'', ''age''] \<and> dict_has kwargs f then map_of kwargs f
        else map_of user f)" for f
    by (simp add: AList.update_conv' apply_updates_lookup [OF assms(3)])
  have same: "update_user rt self user_id kwargs =
      update_user rt self user_id (filter allowed_key kwargs)"
    using assms(1,2) by (simp add: update_user_def Let_def apply_updates_filter [symmetric])
  have "map_of ?u ''id'' = map_of user ''id''" "map_of ?u ''created_at'' = map_of user ''created_at''"
    by (simp_all add: look)
  with res look same show ?thesis by blast
qed

theorem update_user_frame_witness:
  "find_user example_service (JInt 1) = Inr (Some 1) \<and>
   map_of (users example_service) 1 = Some example_user \<and>
   distinct (map fst [(''age'', JInt 31), (''id'', JInt 99), (''role'', JStr ''admin'')]) \<and>
   update_user example_runtime example_service (JInt 1)
     [(''age'', JInt 31), (''id'', JInt 99), (''role'', JStr ''admin'')] =
   update_user example_runtime example_service (JInt 1)
     (filter allowed_key [(''age'', JInt 31), (''id'', JInt 99), (''role'', JStr ''admin'')]) \<and>
   fst (update_user example_runtime example_service (JInt 1)
     [(''age'', JInt 31), (''id'', JInt 99), (''role'', JStr ''admin'')]) =
   Inr (JObj [(''id'', JInt 1), (''name'', JStr ''Ann''), (''email'', JStr ''ann@example.com''),
      (''age'', JInt 31), (''created_at'', JStr ''2023-06-01T12:00:00''),
      (''updated_at'', JStr ''2024-01-01T00:00:00'')])"
proof -
  have a: "find_user example_service (JInt 1) = Inr (Some 1)"
    by (simp add: find_user_def example_service_def)
  have b: "map_of (users example_service) 1 = Some example_user"
    by (simp add: example_service_def)
  have c: "distinct (map fst [(''age'', JInt 31), (''id'', JInt 99), (''role'', JStr ''admin'')])"
    by simp
  have d: "fst (update_user example_runtime example_service (JInt 1)
     [(''age'', JInt 31), (''id'', JInt 99), (''role'', JStr ''admin'')]) =
   Inr (JObj [(''id'', JInt 1), (''name'', JStr ''Ann''), (''email'', JStr ''ann@example.com''),
      (''age'', JInt 31), (''created_at'', JStr ''2023-06-01T12:00:00''),
      (''updated_at'', JStr ''2024-01-01T00:00:00'')])"
    by code_simp
  from update_user_frame [OF a b c, of example_runtime] a b c d
  show ?thesis by blast
qed

end
